theory Spec2Isabelle
  imports Main "HOL-Library.AList"
begin

section \<open>JavaScript values\<close>

text \<open>
  The engine moves loosely typed records (\<^verbatim>\<open>Record<string, unknown>\<close>) around. A value is
  a finite JSON tree, extended by \<^verbatim>\<open>undefined\<close> and by \<^verbatim>\<open>Error\<close> objects (of which only the
  \<^verbatim>\<open>message\<close> is ever read). An object is the list of its own enumerable properties in
  the order \<^verbatim>\<open>Object.entries\<close> yields them.
\<close>

datatype jsval =
    JUndefined
  | JNull
  | JBool bool
  | JNum int
  | JStr string
  | JArr "jsval list"
  | JObj "(string \<times> jsval) list"
  | JErr string

text \<open>Truthiness, as \<^verbatim>\<open>if (x)\<close> and \<^verbatim>\<open>!x\<close> test it.\<close>

fun truthy :: "jsval \<Rightarrow> bool" where
  "truthy JUndefined = False"
| "truthy JNull = False"
| "truthy (JBool b) = b"
| "truthy (JNum n) = (n \<noteq> 0)"
| "truthy (JStr s) = (s \<noteq> [])"
| "truthy (JArr xs) = True"
| "truthy (JObj fs) = True"
| "truthy (JErr m) = True"

section \<open>The async channel (src/utils/asyncQueue.ts)\<close>

text \<open>
  A waiter is the \<^verbatim>\<open>{resolve, reject}\<close> pair of one pending \<^verbatim>\<open>next()\<close> promise; the model
  names it by the identifier of that promise. Calling a waiter's \<^verbatim>\<open>resolve\<close> or \<^verbatim>\<open>reject\<close>
  is an effect, returned as a settlement.
\<close>

datatype 'a iter_result = IterValue 'a | IterDone

datatype 'a settlement = Resolve nat "'a iter_result" | Reject nat jsval

record 'a AsyncQueue =
  aq_values :: "'a list"
  aq_waiters :: "nat list"
  aq_closed :: bool
  aq_error :: jsval

definition new_AsyncQueue :: "'a AsyncQueue" where
  "new_AsyncQueue = \<lparr>aq_values = [], aq_waiters = [], aq_closed = False, aq_error = JUndefined\<rparr>"

text \<open>
  \<^verbatim>\<open>push(value)\<close>: throws when the queue is closed (\<open>Inl\<close>, the queue is left as it was);
  otherwise hands the value to the oldest waiter, or buffers it.
\<close>

definition push :: "'a \<Rightarrow> 'a AsyncQueue \<Rightarrow> jsval + ('a AsyncQueue \<times> 'a settlement list)" where
  "push v q =
     (if aq_closed q then Inl (JErr ''Cannot push to a closed AsyncQueue'')
      else (case aq_waiters q of
              w # ws \<Rightarrow> Inr (q\<lparr>aq_waiters := ws\<rparr>, [Resolve w (IterValue v)])
            | [] \<Rightarrow> Inr (q\<lparr>aq_values := aq_values q @ [v]\<rparr>, [])))"

text \<open>The queue as it is after a call of \<^verbatim>\<open>push\<close>, whether it threw or not.\<close>

definition push_state :: "'a \<Rightarrow> 'a AsyncQueue \<Rightarrow> 'a AsyncQueue" where
  "push_state v q = (case push v q of Inl e \<Rightarrow> q | Inr (q', out) \<Rightarrow> q')"

text \<open>The \<^verbatim>\<open>while (this.waiters.length > 0)\<close> loops of \<^verbatim>\<open>close\<close> and \<^verbatim>\<open>fail\<close>.\<close>

primrec resolve_done :: "nat list \<Rightarrow> 'a settlement list" where
  "resolve_done [] = []"
| "resolve_done (w # ws) = Resolve w IterDone # resolve_done ws"

primrec reject_all :: "jsval \<Rightarrow> nat list \<Rightarrow> 'a settlement list" where
  "reject_all e [] = []"
| "reject_all e (w # ws) = Reject w e # reject_all e ws"

definition close :: "'a AsyncQueue \<Rightarrow> 'a AsyncQueue \<times> 'a settlement list" where
  "close q =
     (if aq_closed q then (q, [])
      else (q\<lparr>aq_closed := True, aq_waiters := []\<rparr>, resolve_done (aq_waiters q)))"

definition fail :: "jsval \<Rightarrow> 'a AsyncQueue \<Rightarrow> 'a AsyncQueue \<times> 'a settlement list" where
  "fail e q =
     (if aq_closed q then (q, [])
      else (q\<lparr>aq_closed := True, aq_error := e, aq_waiters := []\<rparr>, reject_all e (aq_waiters q)))"

text \<open>
  The iterator's \<^verbatim>\<open>next()\<close>. \<open>p\<close> names the promise it returns when it has to wait.
\<close>

datatype 'a next_result = NextRejected jsval | NextResolved "'a iter_result" | NextPending

definition iter_next :: "nat \<Rightarrow> 'a AsyncQueue \<Rightarrow> 'a AsyncQueue \<times> 'a next_result" where
  "iter_next p q =
     (if truthy (aq_error q) then (q, NextRejected (aq_error q))
      else (case aq_values q of
              v # vs \<Rightarrow> (q\<lparr>aq_values := vs\<rparr>, NextResolved (IterValue v))
            | [] \<Rightarrow>
                if aq_closed q then (q, NextResolved IterDone)
                else (q\<lparr>aq_waiters := aq_waiters q @ [p]\<rparr>, NextPending)))"

section \<open>JavaScript operators used by the engine\<close>

text \<open>\<^verbatim>\<open>a ?? b\<close>: the right operand when the left one is \<^verbatim>\<open>null\<close> or \<^verbatim>\<open>undefined\<close>.\<close>

fun nullish :: "jsval \<Rightarrow> bool" where
  "nullish JUndefined = True"
| "nullish JNull = True"
| "nullish v = False"

definition coalesce :: "jsval \<Rightarrow> jsval \<Rightarrow> jsval" where
  "coalesce a b = (if nullish a then b else a)"

text \<open>Reading a property of a record: \<^verbatim>\<open>undefined\<close> when the record has no such property.\<close>

definition get_field :: "(string \<times> jsval) list \<Rightarrow> string \<Rightarrow> jsval" where
  "get_field fs k = (case map_of fs k of Some v \<Rightarrow> v | None \<Rightarrow> JUndefined)"

text \<open>
  \<^verbatim>\<open>obj[key] = value\<close>: an existing property keeps its place and takes the new value, a new
  one is added last. (JavaScript enumerates keys that are array indices first; the
  properties proved below are about lookups and do not depend on the order.)
\<close>

definition set_field :: "string \<Rightarrow> jsval \<Rightarrow> (string \<times> jsval) list \<Rightarrow> (string \<times> jsval) list" where
  "set_field k v fs = AList.update k v fs"

text \<open>\<^verbatim>\<open>String(x)\<close>.\<close>

definition digit_char :: "nat \<Rightarrow> char" where
  "digit_char d = ''0123456789'' ! d"

function show_nat :: "nat \<Rightarrow> string" where
  "show_nat n = (if n < 10 then [digit_char n] else show_nat (n div 10) @ [digit_char (n mod 10)])"
  by pat_completeness auto
termination
  by (relation "measure id") auto

declare show_nat.simps [simp del]

definition show_int :: "int \<Rightarrow> string" where
  "show_int i = (if i < 0 then CHR ''-'' # show_nat (nat (- i)) else show_nat (nat i))"

primrec join_commas :: "string list \<Rightarrow> string" where
  "join_commas [] = []"
| "join_commas (s # ss) = (if ss = [] then s else s @ '','' @ join_commas ss)"

fun js_String :: "jsval \<Rightarrow> string" where
  "js_String JUndefined = ''undefined''"
| "js_String JNull = ''null''"
| "js_String (JBool b) = (if b then ''true'' else ''false'')"
| "js_String (JNum n) = show_int n"
| "js_String (JStr s) = s"
| "js_String (JArr xs) = join_commas (map (\<lambda>x. if nullish x then [] else js_String x) xs)"
| "js_String (JObj fs) = ''[object Object]''"
| "js_String (JErr m) = ''Error: '' @ m"

text \<open>
  Reading a property \<^verbatim>\<open>x.k\<close>: of \<^verbatim>\<open>null\<close> or \<^verbatim>\<open>undefined\<close> it throws a \<^verbatim>\<open>TypeError\<close>; a value
  without the property gives \<^verbatim>\<open>undefined\<close>. (Only names of record fields and \<^verbatim>\<open>message\<close>
  are ever read, so the built-in properties of strings and arrays play no role.)
\<close>

definition get_prop :: "jsval \<Rightarrow> string \<Rightarrow> jsval" where
  "get_prop x k =
     (case x of
        JObj fs \<Rightarrow> get_field fs k
      | JErr m \<Rightarrow> if k = ''message'' then JStr m else JUndefined
      | _ \<Rightarrow> JUndefined)"

definition prop_read :: "jsval \<Rightarrow> string \<Rightarrow> jsval + jsval" where
  "prop_read x k =
     (if nullish x then Inl (JErr ''TypeError: Cannot read properties of null or undefined'')
      else Inr (get_prop x k))"

text \<open>\<^verbatim>\<open>typeof x === "object"\<close> and \<^verbatim>\<open>typeof x === "string"\<close>.\<close>

fun typeof_object :: "jsval \<Rightarrow> bool" where
  "typeof_object JNull = True"
| "typeof_object (JArr xs) = True"
| "typeof_object (JObj fs) = True"
| "typeof_object (JErr m) = True"
| "typeof_object v = False"

fun typeof_string :: "jsval \<Rightarrow> bool" where
  "typeof_string (JStr s) = True"
| "typeof_string v = False"

text \<open>\<^verbatim>\<open>new Error(x)\<close> for a message that is not \<^verbatim>\<open>undefined\<close>: the message is \<^verbatim>\<open>String(x)\<close>.\<close>

definition new_Error :: "jsval \<Rightarrow> jsval" where
  "new_Error x = JErr (js_String x)"

text \<open>How an awaited promise ends, when it does.\<close>

datatype 'a outcome = Fulfilled 'a | Rejected jsval

text \<open>
  \<^verbatim>\<open>Object.entries(x)\<close>: throws on \<^verbatim>\<open>null\<close> and \<^verbatim>\<open>undefined\<close>; the indexed elements of an
  array or string; nothing for a number, a boolean or an \<^verbatim>\<open>Error\<close> (whose own properties
  are not enumerable).
\<close>

primrec indexed :: "nat \<Rightarrow> jsval list \<Rightarrow> (string \<times> jsval) list" where
  "indexed i [] = []"
| "indexed i (x # xs) = (show_nat i, x) # indexed (Suc i) xs"

definition Object_entries :: "jsval \<Rightarrow> jsval + (string \<times> jsval) list" where
  "Object_entries x =
     (case x of
        JUndefined \<Rightarrow> Inl (JErr ''TypeError: Cannot convert undefined or null to object'')
      | JNull \<Rightarrow> Inl (JErr ''TypeError: Cannot convert undefined or null to object'')
      | JObj fs \<Rightarrow> Inr fs
      | JArr xs \<Rightarrow> Inr (indexed 0 xs)
      | JStr s \<Rightarrow> Inr (indexed 0 (map (\<lambda>c. JStr [c]) s))
      | _ \<Rightarrow> Inr [])"

text \<open>
  The document a peer reads from the line \<^verbatim>\<open>JSON.stringify(x)\<close>: properties whose value is
  \<^verbatim>\<open>undefined\<close> are left out, \<^verbatim>\<open>undefined\<close> in an array becomes \<^verbatim>\<open>null\<close>, an \<^verbatim>\<open>Error\<close> has
  no enumerable property. The model writes this document where the source writes the
  line.
\<close>

fun json_doc :: "jsval \<Rightarrow> jsval" where
  "json_doc (JObj fs) = JObj (map (\<lambda>(k, v). (k, json_doc v)) (filter (\<lambda>(k, v). v \<noteq> JUndefined) fs))"
| "json_doc (JArr xs) = JArr (map (\<lambda>x. if x = JUndefined then JNull else json_doc x) xs)"
| "json_doc (JErr m) = JObj []"
| "json_doc v = v"

section \<open>Wire conversions (src/query.ts, lines 53-108)\<close>

datatype PermissionUpdateType =
  addRules | replaceRules | removeRules | setMode | addDirectories | removeDirectories

datatype PermissionUpdateDestination = userSettings | projectSettings | localSettings | session

datatype PermissionBehavior = allow | deny | ask

datatype PermissionMode = mode_default | acceptEdits | plan | bypassPermissions

text \<open>\<^verbatim>\<open>ruleContent?: string | null\<close>: absent, \<^verbatim>\<open>null\<close> or a string.\<close>

datatype ruleContent_field = ruleContent_absent | ruleContent_null | ruleContent_string string

record PermissionRuleValue =
  toolName :: string
  ruleContent :: ruleContent_field

record PermissionUpdate =
  pu_type :: PermissionUpdateType
  pu_rules :: "PermissionRuleValue list option"
  pu_behavior :: "PermissionBehavior option"
  pu_mode :: "PermissionMode option"
  pu_directories :: "string list option"
  pu_destination :: "PermissionUpdateDestination option"

text \<open>The values of the string literal types, as JavaScript values.\<close>

fun js_type :: "PermissionUpdateType \<Rightarrow> jsval" where
  "js_type addRules = JStr ''addRules''"
| "js_type replaceRules = JStr ''replaceRules''"
| "js_type removeRules = JStr ''removeRules''"
| "js_type setMode = JStr ''setMode''"
| "js_type addDirectories = JStr ''addDirectories''"
| "js_type removeDirectories = JStr ''removeDirectories''"

fun js_destination :: "PermissionUpdateDestination \<Rightarrow> jsval" where
  "js_destination userSettings = JStr ''userSettings''"
| "js_destination projectSettings = JStr ''projectSettings''"
| "js_destination localSettings = JStr ''localSettings''"
| "js_destination session = JStr ''session''"

fun js_behavior :: "PermissionBehavior \<Rightarrow> jsval" where
  "js_behavior allow = JStr ''allow''"
| "js_behavior deny = JStr ''deny''"
| "js_behavior ask = JStr ''ask''"

fun js_mode :: "PermissionMode \<Rightarrow> jsval" where
  "js_mode mode_default = JStr ''default''"
| "js_mode acceptEdits = JStr ''acceptEdits''"
| "js_mode plan = JStr ''plan''"
| "js_mode bypassPermissions = JStr ''bypassPermissions''"

text \<open>An optional property as the value that reading it gives.\<close>

definition js_optional :: "('a \<Rightarrow> jsval) \<Rightarrow> 'a option \<Rightarrow> jsval" where
  "js_optional f x = (case x of None \<Rightarrow> JUndefined | Some a \<Rightarrow> f a)"

definition js_ruleContent :: "ruleContent_field \<Rightarrow> jsval" where
  "js_ruleContent c =
     (case c of ruleContent_absent \<Rightarrow> JUndefined | ruleContent_null \<Rightarrow> JNull
      | ruleContent_string s \<Rightarrow> JStr s)"

text \<open>The body of \<^verbatim>\<open>update.rules.map(...)\<close>.\<close>

definition serializeRule :: "PermissionRuleValue \<Rightarrow> jsval" where
  "serializeRule rule =
     JObj [(''toolName'', JStr (toolName rule)),
           (''ruleContent'', coalesce (js_ruleContent (ruleContent rule)) JNull)]"

text \<open>
  The body of \<^verbatim>\<open>updates.map(...)\<close>: each optional property is copied when it is truthy.
\<close>

definition serializePermissionUpdate :: "PermissionUpdate \<Rightarrow> (string \<times> jsval) list" where
  "serializePermissionUpdate update =
     (let result = [(''type'', js_type (pu_type update))];
          result = (if truthy (js_optional js_destination (pu_destination update))
                    then set_field ''destination'' (js_optional js_destination (pu_destination update)) result
                    else result);
          result = (if truthy (js_optional (\<lambda>rs. JArr (map serializeRule rs)) (pu_rules update))
                    then set_field ''rules'' (js_optional (\<lambda>rs. JArr (map serializeRule rs)) (pu_rules update)) result
                    else result);
          result = (if truthy (js_optional js_behavior (pu_behavior update))
                    then set_field ''behavior'' (js_optional js_behavior (pu_behavior update)) result
                    else result);
          result = (if truthy (js_optional js_mode (pu_mode update))
                    then set_field ''mode'' (js_optional js_mode (pu_mode update)) result
                    else result);
          result = (if truthy (js_optional (\<lambda>ds. JArr (map JStr ds)) (pu_directories update))
                    then set_field ''directories'' (js_optional (\<lambda>ds. JArr (map JStr ds)) (pu_directories update)) result
                    else result)
      in result)"

text \<open>
  \<^verbatim>\<open>serializePermissionUpdates\<close>: \<^verbatim>\<open>undefined\<close> (\<open>None\<close>) for a missing or empty list.
\<close>

definition serializePermissionUpdates :: "PermissionUpdate list option \<Rightarrow> jsval list option" where
  "serializePermissionUpdates updates =
     (case updates of
        None \<Rightarrow> None
      | Some us \<Rightarrow> if us = [] then None else Some (map (\<lambda>u. JObj (serializePermissionUpdate u)) us))"

text \<open>
  \<^verbatim>\<open>converted[key] = value\<close> with a computed key, on a record created by \<^verbatim>\<open>{}\<close>. The record
  inherits from \<^verbatim>\<open>Object.prototype\<close>, whose only accessor property is \<^verbatim>\<open>__proto__\<close>: an
  assignment to that key runs the inherited setter, which replaces the prototype of the
  record (when the value is an object or \<^verbatim>\<open>null\<close>) and creates no own property. Every
  other key becomes an own property. The model keeps the own properties of the record,
  which are what \<^verbatim>\<open>JSON.stringify\<close> writes; a prototype set this way is a value of the
  hook's output and has no setter that a later assignment could run.
\<close>

definition assign_field :: "string \<Rightarrow> jsval \<Rightarrow> (string \<times> jsval) list \<Rightarrow> (string \<times> jsval) list" where
  "assign_field k v fs = (if k = ''__proto__'' then fs else set_field k v fs)"

text \<open>
  \<^verbatim>\<open>convertHookOutputForCli\<close>, on the entries of the hook's output: the loop body, then
  the loop over \<^verbatim>\<open>Object.entries(output)\<close> starting from the empty record.
\<close>

definition convert_entry :: "string \<times> jsval \<Rightarrow> (string \<times> jsval) list \<Rightarrow> (string \<times> jsval) list" where
  "convert_entry e converted =
     (if fst e = ''async_'' then set_field ''async'' (snd e) converted
      else if fst e = ''continue_'' then set_field ''continue'' (snd e) converted
      else assign_field (fst e) (snd e) converted)"

definition convertHookOutputForCli :: "(string \<times> jsval) list \<Rightarrow> (string \<times> jsval) list" where
  "convertHookOutputForCli output = fold convert_entry output []"

section \<open>The in-process bridge transport (src/query.ts, lines 176-236)\<close>

text \<open>
  The handlers \<^verbatim>\<open>onmessage\<close>, \<^verbatim>\<open>onerror\<close> and \<^verbatim>\<open>onclose\<close> belong to the wrapped service: the
  transport records whether one is assigned, a call of one is an effect, and how the
  promise of \<^verbatim>\<open>onmessage\<close> ends is an event of the environment. The texts of the source's
  error messages are Chinese; the model carries an English gloss of each.
\<close>

record InMemoryMcpTransport =
  outboundQueue :: "jsval AsyncQueue"
  mt_closed :: bool
  onmessage :: bool
  onerror :: bool
  onclose :: bool

definition new_InMemoryMcpTransport :: InMemoryMcpTransport where
  "new_InMemoryMcpTransport =
     \<lparr>outboundQueue = new_AsyncQueue, mt_closed = False,
      onmessage = False, onerror = False, onclose = False\<rparr>"

definition send :: "jsval \<Rightarrow> InMemoryMcpTransport \<Rightarrow> jsval + (InMemoryMcpTransport \<times> jsval settlement list)" where
  "send m t =
     (if mt_closed t then Inl (JErr ''MCP transport is closed, cannot send'')
      else (case push m (outboundQueue t) of
              Inl e \<Rightarrow> Inl e
            | Inr (q, out) \<Rightarrow> Inr (t\<lparr>outboundQueue := q\<rparr>, out)))"

text \<open>\<^verbatim>\<open>close()\<close>: the new transport, the waiters it ends, and whether \<^verbatim>\<open>onclose\<close> is called.\<close>

definition close_transport :: "InMemoryMcpTransport \<Rightarrow> InMemoryMcpTransport \<times> jsval settlement list \<times> bool" where
  "close_transport t =
     (if mt_closed t then (t, [], False)
      else (case close (outboundQueue t) of
              (q, out) \<Rightarrow> (t\<lparr>mt_closed := True, outboundQueue := q\<rparr>, out, onclose t)))"

text \<open>\<^verbatim>\<open>deliver\<close> up to its \<^verbatim>\<open>await this.onmessage(message)\<close>: it throws, or calls the handler.\<close>

definition deliver_begin :: "InMemoryMcpTransport \<Rightarrow> jsval option" where
  "deliver_begin t =
     (if mt_closed t then Some (JErr ''MCP transport is closed'')
      else if \<not> onmessage t then Some (JErr ''MCP transport has no message handler yet'')
      else None)"

text \<open>
  \<^verbatim>\<open>deliver\<close> after the handler's promise has ended: what \<^verbatim>\<open>deliver\<close> throws (if anything),
  and the error handed to \<^verbatim>\<open>onerror\<close> (if any).
\<close>

definition as_Error :: "jsval \<Rightarrow> jsval" where
  "as_Error e = (case e of JErr m \<Rightarrow> JErr m | _ \<Rightarrow> new_Error e)"

definition deliver_end :: "InMemoryMcpTransport \<Rightarrow> jsval outcome \<Rightarrow> jsval option \<times> jsval option" where
  "deliver_end t r =
     (case r of
        Fulfilled v \<Rightarrow> (None, None)
      | Rejected e \<Rightarrow> if onerror t then (None, Some (as_Error e)) else (Some (as_Error e), None))"

section \<open>The server bridge (src/query.ts, lines 238-348)\<close>

text \<open>
  \<^verbatim>\<open>handleRequest\<close> is an async function: a call runs in pieces, each from one \<^verbatim>\<open>await\<close> to
  the next, and pieces of different calls interleave. The model keeps, for every call,
  the \<^verbatim>\<open>await\<close> it is suspended at; an event runs one piece. The promise \<^verbatim>\<open>this.queue\<close> is
  named by the call whose \<^verbatim>\<open>processRequest\<close> promise it follows (\<open>None\<close> for the initial
  \<^verbatim>\<open>Promise.resolve()\<close>): it is settled when that call is.

  The order of the events is the order in which the event loop runs the pieces, so
  every run of the program is a sequence of events of the model, and what holds for all
  sequences holds for all runs. The event loop runs the continuations of one promise
  in the order in which they started to wait; the sequences evaluated below follow that
  order.
\<close>

datatype call_state =
    AwaitQueue "nat option"
  | AwaitConnect
  | AwaitEnsureConnected "jsval option"
  | AwaitOnMessage
  | AwaitDeliver "jsval option"
  | AwaitResponse
  | Settled "jsval outcome"

text \<open>
  \<open>AwaitQueue p\<close>: at \<^verbatim>\<open>await this.queue\<close> (line 274), \<open>p\<close> the promise read there.
  \<open>AwaitConnect\<close>: at \<^verbatim>\<open>await candidate.connect(this.transport)\<close> (line 324).
  \<open>AwaitEnsureConnected r\<close>: at \<^verbatim>\<open>await this.ensureConnected()\<close> (line 292), which has
  returned (\<open>None\<close>) or thrown.
  \<open>AwaitOnMessage\<close>: at \<^verbatim>\<open>await this.onmessage(message)\<close> (line 218).
  \<open>AwaitDeliver r\<close>: at \<^verbatim>\<open>await this.transport.deliver(message)\<close> (line 293), which has
  returned or thrown.
  \<open>AwaitResponse\<close>: at \<^verbatim>\<open>await waitWithTimeout(...)\<close> (line 304), the timer armed.
  \<open>Settled r\<close>: the promise of \<^verbatim>\<open>processRequest\<close>, which \<^verbatim>\<open>handleRequest\<close> returns, has ended.
\<close>

record call =
  c_message :: jsval
  c_state :: call_state

text \<open>
  A running \<^verbatim>\<open>waitForResponse\<close> loop: the identifier it waits for and the state of its
  \<^verbatim>\<open>await this.transport.nextMessage()\<close> (\<open>NextPending\<close> while it is a waiter of the
  outbound queue). The loop of call \<open>c\<close> is named \<open>c\<close>, and so is its waiter.
\<close>

record reader =
  r_expected :: "string option"
  r_inbox :: "jsval next_result"

text \<open>What the bridge does to the wrapped service, and the timers it arms.\<close>

datatype effect =
    ConnectInvoked nat
  | OnMessageInvoked nat jsval
  | OnErrorInvoked nat jsval
  | OnCloseInvoked
  | InstanceCloseInvoked
  | TimerArmed nat nat

text \<open>The wrapped instance, as far as the bridge looks at it.\<close>

record McpInstance =
  has_connect :: bool
  has_close :: bool

record McpServerBridge =
  br_instance :: McpInstance
  br_transport :: InMemoryMcpTransport
  connected :: bool
  queue :: "nat option"
  calls :: "nat \<Rightarrow> call option"
  n_calls :: nat
  readers :: "nat \<Rightarrow> reader option"
  effects :: "effect list"

definition new_McpServerBridge :: "McpInstance \<Rightarrow> McpServerBridge" where
  "new_McpServerBridge i =
     \<lparr>br_instance = i, br_transport = new_InMemoryMcpTransport, connected = False, queue = None,
      calls = (\<lambda>c. None), n_calls = 0, readers = (\<lambda>r. None), effects = []\<rparr>"

definition state_of :: "McpServerBridge \<Rightarrow> nat \<Rightarrow> call_state option" where
  "state_of b c = map_option c_state (calls b c)"

definition set_state :: "nat \<Rightarrow> call_state \<Rightarrow> McpServerBridge \<Rightarrow> McpServerBridge" where
  "set_state c st b =
     (case calls b c of
        None \<Rightarrow> b
      | Some k \<Rightarrow> b\<lparr>calls := (calls b)(c := Some (k\<lparr>c_state := st\<rparr>))\<rparr>)"

definition queue_settled :: "McpServerBridge \<Rightarrow> nat option \<Rightarrow> bool" where
  "queue_settled b p =
     (case p of
        None \<Rightarrow> True
      | Some c \<Rightarrow> (case state_of b c of Some (Settled r) \<Rightarrow> True | _ \<Rightarrow> False))"

text \<open>
  \<^verbatim>\<open>waitWithTimeout\<close> (lines 238-264): the first of the wrapped promise and the timer
  settles the call; the later one finds it settled and changes nothing.
\<close>

definition settle_waiting :: "nat \<Rightarrow> jsval outcome \<Rightarrow> McpServerBridge \<Rightarrow> McpServerBridge" where
  "settle_waiting c r b =
     (if state_of b c = Some AwaitResponse then set_state c (Settled r) b else b)"

text \<open>Waiters of the outbound queue that \<^verbatim>\<open>push\<close> or \<^verbatim>\<open>close\<close> has answered.\<close>

fun wake :: "jsval settlement \<Rightarrow> McpServerBridge \<Rightarrow> McpServerBridge" where
  "wake (Resolve w x) b =
     (case readers b w of
        None \<Rightarrow> b
      | Some r \<Rightarrow> b\<lparr>readers := (readers b)(w := Some (r\<lparr>r_inbox := NextResolved x\<rparr>))\<rparr>)"
| "wake (Reject w e) b =
     (case readers b w of
        None \<Rightarrow> b
      | Some r \<Rightarrow> b\<lparr>readers := (readers b)(w := Some (r\<lparr>r_inbox := NextRejected e\<rparr>))\<rparr>)"

text \<open>
  One \<^verbatim>\<open>await this.transport.nextMessage()\<close> of the loop of call \<open>c\<close> (lines 229-235, 332):
  \<^verbatim>\<open>next()\<close> runs at once and answers, or makes the loop a waiter.
\<close>

definition pull :: "nat \<Rightarrow> string option \<Rightarrow> McpServerBridge \<Rightarrow> McpServerBridge" where
  "pull c expected b =
     (case iter_next c (outboundQueue (br_transport b)) of
        (q, res) \<Rightarrow>
          b\<lparr>br_transport := (br_transport b)\<lparr>outboundQueue := q\<rparr>,
            readers := (readers b)(c := Some \<lparr>r_expected = expected, r_inbox = res\<rparr>)\<rparr>)"

text \<open>\<^verbatim>\<open>ensureConnected\<close> up to its first \<^verbatim>\<open>await\<close> or its end (lines 311-324).\<close>

definition ensureConnected_begin :: "nat \<Rightarrow> McpServerBridge \<Rightarrow> McpServerBridge" where
  "ensureConnected_begin c b =
     (if connected b then set_state c (AwaitEnsureConnected None) b
      else if \<not> has_connect (br_instance b)
      then set_state c (AwaitEnsureConnected (Some (JErr ''MCP server instance has no connect() method''))) b
      else set_state c AwaitConnect (b\<lparr>effects := effects b @ [ConnectInvoked c]\<rparr>))"

text \<open>
  \<^verbatim>\<open>handleRequest\<close> after \<^verbatim>\<open>await this.queue\<close> (lines 275-279): \<^verbatim>\<open>processRequest\<close> starts and
  runs into \<^verbatim>\<open>ensureConnected\<close>; \<^verbatim>\<open>this.queue\<close> becomes the promise that follows this call.
\<close>

definition after_queue :: "nat \<Rightarrow> McpServerBridge \<Rightarrow> McpServerBridge" where
  "after_queue c b = (ensureConnected_begin c b)\<lparr>queue := Some c\<rparr>"

text \<open>\<^verbatim>\<open>processRequest\<close> from the end of \<^verbatim>\<open>ensureConnected\<close> into \<^verbatim>\<open>deliver\<close> (line 293).\<close>

definition after_ensureConnected :: "nat \<Rightarrow> jsval \<Rightarrow> McpServerBridge \<Rightarrow> McpServerBridge" where
  "after_ensureConnected c m b =
     (case deliver_begin (br_transport b) of
        Some e \<Rightarrow> set_state c (AwaitDeliver (Some e)) b
      | None \<Rightarrow> set_state c AwaitOnMessage (b\<lparr>effects := effects b @ [OnMessageInvoked c m]\<rparr>))"

text \<open>The reply to a message without identifier (lines 297-301).\<close>

definition notification_reply :: "jsval \<Rightarrow> jsval" where
  "notification_reply m =
     JObj [(''jsonrpc'', if typeof_string (get_prop m ''jsonrpc'') then get_prop m ''jsonrpc'' else JStr ''2.0''),
           (''id'', JNull), (''result'', JNull)]"

text \<open>
  \<^verbatim>\<open>processRequest\<close> after \<^verbatim>\<open>deliver\<close> (lines 295-308): the reply of a notification, or the
  start of \<^verbatim>\<open>waitForResponse\<close> (which pulls at once) under a timer of 60000 ms.
\<close>

definition after_deliver :: "nat \<Rightarrow> jsval \<Rightarrow> McpServerBridge \<Rightarrow> McpServerBridge" where
  "after_deliver c m b =
     (case prop_read m ''id'' of
        Inl e \<Rightarrow> set_state c (Settled (Rejected e)) b
      | Inr i \<Rightarrow>
          if coalesce i JNull = JNull then set_state c (Settled (Fulfilled (notification_reply m))) b
          else set_state c AwaitResponse
                 ((pull c (Some (js_String (coalesce i JNull))) b)
                    \<lparr>effects := effects b @ [TimerArmed c 60000]\<rparr>))"

text \<open>The identifier of a pulled message, normalised (lines 337-340).\<close>

definition message_id :: "jsval \<Rightarrow> string option" where
  "message_id m = (if nullish (get_prop m ''id'') then None else Some (js_String (get_prop m ''id'')))"

text \<open>
  The loop of call \<open>c\<close> after its \<^verbatim>\<open>await\<close> has been answered (lines 333-346): the end of the
  channel and a falsy message end the loop with an error, the expected identifier ends
  it with the message, any other message is dropped and the loop pulls again.
\<close>

definition drop_reader :: "nat \<Rightarrow> McpServerBridge \<Rightarrow> McpServerBridge" where
  "drop_reader c b = b\<lparr>readers := (readers b)(c := None)\<rparr>"

definition reader_step :: "nat \<Rightarrow> reader \<Rightarrow> McpServerBridge \<Rightarrow> McpServerBridge option" where
  "reader_step c r b =
     (case r_inbox r of
        NextPending \<Rightarrow> None
      | NextRejected e \<Rightarrow> Some (settle_waiting c (Rejected e) (drop_reader c b))
      | NextResolved x \<Rightarrow>
          (let m = (case x of IterDone \<Rightarrow> JUndefined | IterValue v \<Rightarrow> v) in
           if \<not> truthy m
           then Some (settle_waiting c (Rejected (JErr ''MCP server connection is closed'')) (drop_reader c b))
           else if message_id m = r_expected r
           then Some (settle_waiting c (Fulfilled m) (drop_reader c b))
           else Some (pull c (r_expected r) b)))"

text \<open>
  Events: a call of \<^verbatim>\<open>handleRequest\<close>; the continuation of a call or of a loop running;
  the promise of \<^verbatim>\<open>connect\<close> or of \<^verbatim>\<open>onmessage\<close> ending; the timer of a call firing; the
  service assigning a handler or sending a message; \<^verbatim>\<open>close()\<close> of the bridge.
\<close>

datatype bridge_event =
    HandleRequest jsval
  | Resume nat
  | ConnectSettles nat "jsval outcome"
  | OnMessageSettles nat "jsval outcome"
  | ResumeReader nat
  | TimerFires nat
  | AssignOnMessage
  | AssignOnError
  | AssignOnClose
  | ServiceSends jsval
  | CloseBridge

definition resume :: "nat \<Rightarrow> call \<Rightarrow> McpServerBridge \<Rightarrow> McpServerBridge option" where
  "resume c k b =
     (case c_state k of
        AwaitQueue p \<Rightarrow> if queue_settled b p then Some (after_queue c b) else None
      | AwaitEnsureConnected None \<Rightarrow> Some (after_ensureConnected c (c_message k) b)
      | AwaitEnsureConnected (Some e) \<Rightarrow> Some (set_state c (Settled (Rejected e)) b)
      | AwaitDeliver None \<Rightarrow> Some (after_deliver c (c_message k) b)
      | AwaitDeliver (Some e) \<Rightarrow> Some (set_state c (Settled (Rejected e)) b)
      | _ \<Rightarrow> None)"

text \<open>
  \<^verbatim>\<open>handleRequest\<close> up to \<^verbatim>\<open>await this.queue\<close> (line 274): a new call, numbered \<open>n_calls b\<close>,
  waits for the promise that \<^verbatim>\<open>this.queue\<close> is at this moment.
\<close>

definition handleRequest_begin :: "jsval \<Rightarrow> McpServerBridge \<Rightarrow> McpServerBridge" where
  "handleRequest_begin m b =
     b\<lparr>calls := (calls b)(n_calls b := Some \<lparr>c_message = m, c_state = AwaitQueue (queue b)\<rparr>),
       n_calls := Suc (n_calls b)\<rparr>"

text \<open>One event; \<open>None\<close> when it cannot happen in this state.\<close>

fun step :: "bridge_event \<Rightarrow> McpServerBridge \<Rightarrow> McpServerBridge option" where
  "step (HandleRequest m) b = Some (handleRequest_begin m b)"
| "step (Resume c) b = (case calls b c of None \<Rightarrow> None | Some k \<Rightarrow> resume c k b)"
| "step (ConnectSettles c r) b =
     (if state_of b c = Some AwaitConnect
      then (case r of
              Fulfilled v \<Rightarrow> Some (set_state c (AwaitEnsureConnected None) (b\<lparr>connected := True\<rparr>))
            | Rejected e \<Rightarrow> Some (set_state c (AwaitEnsureConnected (Some e)) b))
      else None)"
| "step (OnMessageSettles c r) b =
     (if state_of b c = Some AwaitOnMessage
      then (case deliver_end (br_transport b) r of
              (thrown, reported) \<Rightarrow>
                Some (set_state c (AwaitDeliver thrown)
                        (b\<lparr>effects := effects b @ (case reported of None \<Rightarrow> [] | Some e \<Rightarrow> [OnErrorInvoked c e])\<rparr>)))
      else None)"
| "step (ResumeReader c) b = (case readers b c of None \<Rightarrow> None | Some r \<Rightarrow> reader_step c r b)"
| "step (TimerFires c) b =
     (if state_of b c = Some AwaitResponse
      then Some (set_state c (Settled (Rejected (JErr ''Timed out waiting for the MCP response''))) b)
      else None)"
| "step AssignOnMessage b = Some (b\<lparr>br_transport := (br_transport b)\<lparr>onmessage := True\<rparr>\<rparr>)"
| "step AssignOnError b = Some (b\<lparr>br_transport := (br_transport b)\<lparr>onerror := True\<rparr>\<rparr>)"
| "step AssignOnClose b = Some (b\<lparr>br_transport := (br_transport b)\<lparr>onclose := True\<rparr>\<rparr>)"
| "step (ServiceSends m) b =
     (case send m (br_transport b) of
        Inl e \<Rightarrow> Some b
      | Inr (t, out) \<Rightarrow> Some (fold wake out (b\<lparr>br_transport := t\<rparr>)))"
| "step CloseBridge b =
     (case close_transport (br_transport b) of
        (t, out, called) \<Rightarrow>
          Some ((fold wake out (b\<lparr>br_transport := t\<rparr>))
                  \<lparr>effects := effects b @ (if called then [OnCloseInvoked] else [])
                                @ (if has_close (br_instance b) then [InstanceCloseInvoked] else [])\<rparr>))"

fun run :: "bridge_event list \<Rightarrow> McpServerBridge \<Rightarrow> McpServerBridge option" where
  "run [] b = Some b"
| "run (e # es) b = (case step e b of None \<Rightarrow> None | Some b' \<Rightarrow> run es b')"

text \<open>How often \<^verbatim>\<open>connect\<close> of the instance has been called.\<close>

fun is_connect :: "effect \<Rightarrow> bool" where
  "is_connect (ConnectInvoked c) = True"
| "is_connect e = False"


section \<open>The protocol engine (src/query.ts, lines 350-688)\<close>

text \<open>
  The transport is a collaborator of the engine (\<^verbatim>\<open>interface Transport\<close>, src/types.ts). The
  engine writes lines \<^verbatim>\<open>JSON.stringify(x) + "\n"\<close> to it; the model keeps the documents
  written so far, and whether \<^verbatim>\<open>write\<close> succeeds: a \<^verbatim>\<open>write\<close> that fails rejects and writes
  nothing.
\<close>

record Transport =
  written :: "jsval list"
  writable :: bool

definition transport_write :: "jsval \<Rightarrow> Transport \<Rightarrow> jsval + Transport" where
  "transport_write x t =
     (if writable t then Inr (t\<lparr>written := written t @ [json_doc x]\<rparr>)
      else Inl (JErr ''write failed''))"

record ToolPermissionContext =
  signal :: jsval
  suggestions :: jsval
  blockedPath :: jsval

text \<open>
  What the permission callback returns: an Allow or a Deny of the declared types, or
  any other value (one whose \<^verbatim>\<open>behavior\<close> is neither \<^verbatim>\<open>"allow"\<close> nor \<^verbatim>\<open>"deny"\<close>).
\<close>

datatype PermissionResult =
    PermissionResultAllow jsval "PermissionUpdate list option"
  | PermissionResultDeny "string option" "bool option"
  | PermissionResultOther jsval

text \<open>
  The callbacks of the application are functions of their arguments; the result tells
  how the promise they return ends (\<open>None\<close>: it never does). A callback that throws
  is one whose promise is rejected. The context of a hook callback is always
  \<^verbatim>\<open>{ signal: null }\<close> and is left out.
\<close>

type_synonym CanUseTool = "string \<Rightarrow> jsval \<Rightarrow> ToolPermissionContext \<Rightarrow> PermissionResult outcome option"

type_synonym HookCallback = "jsval \<Rightarrow> jsval \<Rightarrow> jsval outcome option"

record HookMatcher =
  matcher :: jsval
  hm_hooks :: "HookCallback list option"

text \<open>
  The engine. The bridges are objects shared between the map \<^verbatim>\<open>sdkMcpBridges\<close> and the
  handlers that use them: \<open>bridge_store\<close> holds them by address and the map holds
  addresses. \<^verbatim>\<open>close()\<close> enumerates that map, so it is the list of its entries in
  insertion order. A pending control request maps to the number of the \<^verbatim>\<open>sendControlRequest\<close>
  call that created its \<^verbatim>\<open>{resolve, reject}\<close> pair, which names the promise.
\<close>

record Query =
  transport :: Transport
  canUseTool :: "CanUseTool option"
  hooks :: "(string \<times> HookMatcher list) list option"
  isStreamingMode :: bool
  sdkMcpServers :: "string \<Rightarrow> McpInstance option"
  sdkMcpBridges :: "(string \<times> nat) list"
  bridge_store :: "McpServerBridge list"
  messageQueue :: "jsval AsyncQueue"
  pendingControlRequests :: "string \<Rightarrow> nat option"
  hookCallbacks :: "string \<Rightarrow> HookCallback option"
  requestCounter :: nat
  q_closed :: bool
  initializationResult :: jsval

record QueryOptions =
  opt_transport :: Transport
  opt_canUseTool :: "CanUseTool option"
  opt_hooks :: "(string \<times> HookMatcher list) list option"
  opt_sdkMcpServers :: "(string \<Rightarrow> McpInstance option) option"
  opt_isStreamingMode :: "bool option"

definition new_Query :: "QueryOptions \<Rightarrow> Query" where
  "new_Query options =
     \<lparr>transport = opt_transport options,
      canUseTool = opt_canUseTool options,
      hooks = opt_hooks options,
      isStreamingMode = (case opt_isStreamingMode options of None \<Rightarrow> True | Some b \<Rightarrow> b),
      sdkMcpServers = (case opt_sdkMcpServers options of None \<Rightarrow> (\<lambda>n. None) | Some m \<Rightarrow> m),
      sdkMcpBridges = [],
      bridge_store = [],
      messageQueue = new_AsyncQueue,
      pendingControlRequests = (\<lambda>r. None),
      hookCallbacks = (\<lambda>c. None),
      requestCounter = 0,
      q_closed = False,
      initializationResult = JNull\<rparr>"

subsection \<open>buildHookConfig (lines 110-152)\<close>

text \<open>
  \<^verbatim>\<open>randomBytes(4).toString("hex")\<close> is an input: \<open>rnd i\<close> is the \<open>i\<close>-th draw. The three
  nested loops return the configuration, the number of draws used and the callbacks
  registered.
\<close>

fun register_callbacks ::
  "HookCallback list \<Rightarrow> (nat \<Rightarrow> string) \<Rightarrow> nat \<Rightarrow> (string \<Rightarrow> HookCallback option)
   \<Rightarrow> string list \<times> nat \<times> (string \<Rightarrow> HookCallback option)" where
  "register_callbacks [] rnd i reg = ([], i, reg)"
| "register_callbacks (callback # rest) rnd i reg =
     (case register_callbacks rest rnd (Suc i) (reg((''hook_'' @ rnd i) := Some callback)) of
        (ids, j, reg') \<Rightarrow> ((''hook_'' @ rnd i) # ids, j, reg'))"

fun matcher_configs ::
  "HookMatcher list \<Rightarrow> (nat \<Rightarrow> string) \<Rightarrow> nat \<Rightarrow> (string \<Rightarrow> HookCallback option)
   \<Rightarrow> jsval list \<times> nat \<times> (string \<Rightarrow> HookCallback option)" where
  "matcher_configs [] rnd i reg = ([], i, reg)"
| "matcher_configs (m # ms) rnd i reg =
     (case (case hm_hooks m of None \<Rightarrow> ([], i, reg) | Some cbs \<Rightarrow> register_callbacks cbs rnd i reg) of
        (hookCallbackIds, j, reg') \<Rightarrow>
          (case matcher_configs ms rnd j reg' of
             (cfgs, k, reg'') \<Rightarrow>
               (JObj [(''matcher'', coalesce (matcher m) JNull),
                      (''hookCallbackIds'', JArr (map JStr hookCallbackIds))] # cfgs, k, reg'')))"

fun event_configs ::
  "(string \<times> HookMatcher list) list \<Rightarrow> (nat \<Rightarrow> string) \<Rightarrow> nat \<Rightarrow> (string \<Rightarrow> HookCallback option)
   \<Rightarrow> (string \<times> jsval) list \<Rightarrow> (string \<times> jsval) list \<times> nat \<times> (string \<Rightarrow> HookCallback option)" where
  "event_configs [] rnd i reg config = (config, i, reg)"
| "event_configs ((event, matchers) # rest) rnd i reg config =
     (if matchers = [] then event_configs rest rnd i reg config
      else (case matcher_configs matchers rnd i reg of
              (cfgs, j, reg') \<Rightarrow>
                event_configs rest rnd j reg'
                  (if cfgs \<noteq> [] then set_field event (JArr cfgs) config else config)))"

definition buildHookConfig ::
  "(string \<times> HookMatcher list) list option \<Rightarrow> (nat \<Rightarrow> string) \<Rightarrow> (string \<Rightarrow> HookCallback option)
   \<Rightarrow> jsval \<times> nat \<times> (string \<Rightarrow> HookCallback option)" where
  "buildHookConfig hs rnd reg =
     (case hs of
        None \<Rightarrow> (JUndefined, 0, reg)
      | Some evs \<Rightarrow>
          (case event_configs evs rnd 0 reg [] of
             (config, j, reg') \<Rightarrow> (if config = [] then JUndefined else JObj config, j, reg')))"

subsection \<open>Outbound correlated requests (lines 637-671, 506-523)\<close>

text \<open>
  \<^verbatim>\<open>sendControlRequest\<close> up to \<^verbatim>\<open>await responsePromise\<close>: it throws (outside streaming mode,
  or when the write fails: the registration made before the write then stays), or it
  waits for the response to the request identifier it returns here. \<open>hex\<close> is the random
  suffix.
\<close>

definition sendControlRequest_begin ::
  "(string \<times> jsval) list \<Rightarrow> string \<Rightarrow> Query \<Rightarrow> Query \<times> (jsval + string)" where
  "sendControlRequest_begin request hex q =
     (if \<not> isStreamingMode q
      then (q, Inl (JErr ''Control requests are only available in streaming mode''))
      else
        (let n = Suc (requestCounter q);
             requestId = ''req_'' @ show_nat n @ ''_'' @ hex;
             payload = JObj [(''type'', JStr ''control_request''),
                             (''request_id'', JStr requestId),
                             (''request'', JObj request)];
             q1 = q\<lparr>requestCounter := n,
                    pendingControlRequests := (pendingControlRequests q)(requestId := Some n)\<rparr>
         in (case transport_write payload (transport q1) of
               Inl e \<Rightarrow> (q1, Inl e)
             | Inr t \<Rightarrow> (q1\<lparr>transport := t\<rparr>, Inr requestId))))"

text \<open>
  \<^verbatim>\<open>sendControlRequest\<close> from the end of \<^verbatim>\<open>await responsePromise\<close> (lines 661-670): the
  \<^verbatim>\<open>finally\<close> block removes the registration; a rejection is wrapped.
\<close>

definition sendControlRequest_end :: "string \<Rightarrow> jsval outcome \<Rightarrow> Query \<Rightarrow> Query \<times> jsval outcome" where
  "sendControlRequest_end requestId r q =
     (q\<lparr>pendingControlRequests := (pendingControlRequests q)(requestId := None)\<rparr>,
      (case r of
         Fulfilled v \<Rightarrow> Fulfilled v
       | Rejected e \<Rightarrow>
           (case prop_read e ''message'' of
              Inl te \<Rightarrow> Rejected te
            | Inr m \<Rightarrow> Rejected (JErr (''Control request failed: '' @ js_String m)))))"

text \<open>
  \<^verbatim>\<open>handleControlResponse\<close>: the new engine and the promises it settles, or the
  \<^verbatim>\<open>TypeError\<close> of reading \<^verbatim>\<open>request_id\<close> of a missing \<^verbatim>\<open>response\<close>. The keys of the map
  are strings, so an identifier that is not a string finds nothing.
\<close>

definition handleControlResponse :: "jsval \<Rightarrow> Query \<Rightarrow> jsval + (Query \<times> (nat \<times> jsval outcome) list)" where
  "handleControlResponse message q =
     (let response = get_prop message ''response'' in
      case prop_read response ''request_id'' of
        Inl e \<Rightarrow> Inl e
      | Inr (JStr requestId) \<Rightarrow>
          (case pendingControlRequests q requestId of
             None \<Rightarrow> Inr (q, [])
           | Some pending \<Rightarrow>
               (let q1 = q\<lparr>pendingControlRequests := (pendingControlRequests q)(requestId := None)\<rparr>
                in if get_prop response ''subtype'' = JStr ''error''
                   then Inr (q1, [(pending, Rejected (new_Error
                           (coalesce (get_prop response ''error'')
                              (JStr ''The control channel returned an unknown error''))))])
                   else Inr (q1, [(pending, Fulfilled
                           (coalesce (get_prop response ''response'') (JObj [])))])))
      | Inr other \<Rightarrow> Inr (q, []))"

subsection \<open>initialize, getInitializationResult (lines 396-413, 449-451)\<close>

datatype initialize_state = InitReturned jsval | InitThrew jsval | InitAwaiting string

definition initialize_begin :: "(nat \<Rightarrow> string) \<Rightarrow> Query \<Rightarrow> Query \<times> initialize_state" where
  "initialize_begin rnd q =
     (if \<not> isStreamingMode q then (q\<lparr>initializationResult := JNull\<rparr>, InitReturned JNull)
      else
        (case buildHookConfig (hooks q) rnd (hookCallbacks q) of
           (hookConfig, j, reg) \<Rightarrow>
             (case sendControlRequest_begin
                     [(''subtype'', JStr ''initialize''), (''hooks'', coalesce hookConfig JNull)]
                     (rnd j) (q\<lparr>hookCallbacks := reg\<rparr>) of
                (q1, Inl e) \<Rightarrow> (q1, InitThrew e)
              | (q1, Inr requestId) \<Rightarrow> (q1, InitAwaiting requestId))))"

definition initialize_end :: "string \<Rightarrow> jsval outcome \<Rightarrow> Query \<Rightarrow> Query \<times> jsval outcome" where
  "initialize_end requestId r q =
     (case sendControlRequest_end requestId r q of
        (q1, Fulfilled response) \<Rightarrow> (q1\<lparr>initializationResult := response\<rparr>, Fulfilled response)
      | (q1, Rejected e) \<Rightarrow> (q1, Rejected e))"

definition getInitializationResult :: "Query \<Rightarrow> jsval" where
  "getInitializationResult q = initializationResult q"

subsection \<open>interrupt, setPermissionMode, setModel (lines 437-447)\<close>

text \<open>Each is one \<^verbatim>\<open>sendControlRequest\<close>, whose result it drops.\<close>

definition interrupt_begin :: "string \<Rightarrow> Query \<Rightarrow> Query \<times> (jsval + string)" where
  "interrupt_begin hex q = sendControlRequest_begin [(''subtype'', JStr ''interrupt'')] hex q"

definition setPermissionMode_begin :: "string \<Rightarrow> string \<Rightarrow> Query \<Rightarrow> Query \<times> (jsval + string)" where
  "setPermissionMode_begin mode hex q =
     sendControlRequest_begin [(''subtype'', JStr ''set_permission_mode''), (''mode'', JStr mode)] hex q"

definition setModel_begin :: "jsval \<Rightarrow> string \<Rightarrow> Query \<Rightarrow> Query \<times> (jsval + string)" where
  "setModel_begin model hex q =
     sendControlRequest_begin [(''subtype'', JStr ''set_model''), (''model'', model)] hex q"

subsection \<open>close (lines 453-473)\<close>


subsection \<open>Control-request dispatch (lines 525-635, 673-687)\<close>

definition getOrCreateMcpServerBridge :: "string \<Rightarrow> Query \<Rightarrow> jsval + (Query \<times> nat)" where
  "getOrCreateMcpServerBridge serverName q =
     (case map_of (sdkMcpBridges q) serverName of
        Some a \<Rightarrow> Inr (q, a)
      | None \<Rightarrow>
          (case sdkMcpServers q serverName of
             None \<Rightarrow> Inl (JErr (''No SDK MCP server instance named '' @ serverName))
           | Some i \<Rightarrow>
               Inr (q\<lparr>bridge_store := bridge_store q @ [new_McpServerBridge i],
                       sdkMcpBridges := AList.update serverName (length (bridge_store q)) (sdkMcpBridges q)\<rparr>,
                    length (bridge_store q))))"

text \<open>
  What a handler waits for: the permission callback (with the \<^verbatim>\<open>input\<close> it was given), a
  hook callback, or call \<open>c\<close> of \<^verbatim>\<open>handleRequest\<close> on the bridge at address \<open>a\<close>.
\<close>

datatype handler_wait =
    WaitCanUseTool jsval "PermissionResult outcome option"
  | WaitHook "jsval outcome option"
  | WaitBridge nat nat

text \<open>How the promise of \<^verbatim>\<open>handleControlRequest\<close> ends.\<close>

datatype handler_end = Completed | Failed jsval

text \<open>
  The \<^verbatim>\<open>try\<close> block up to its \<^verbatim>\<open>await\<close> (lines 533-613): it throws, or calls a callback or
  the bridge and waits.
\<close>

definition dispatch :: "jsval \<Rightarrow> Query \<Rightarrow> Query \<times> (jsval + handler_wait)" where
  "dispatch requestBody q =
     (let subtype = get_prop requestBody ''subtype'' in
      if \<not> truthy subtype then (q, Inl (JErr ''The control request has no subtype field''))
      else if subtype = JStr ''can_use_tool'' then
        (case canUseTool q of
           None \<Rightarrow> (q, Inl (JErr ''No canUseTool callback was provided, cannot handle the tool permission request''))
         | Some callback \<Rightarrow>
             (let toolName = js_String (coalesce (get_prop requestBody ''tool_name'') (JStr []));
                  input = coalesce (get_prop requestBody ''input'') (JObj []);
                  context = \<lparr>signal = JNull,
                             suggestions = coalesce (get_prop requestBody ''permission_suggestions'') (JArr []),
                             blockedPath = coalesce (get_prop requestBody ''blocked_path'') JNull\<rparr>
              in (q, Inr (WaitCanUseTool input (callback toolName input context)))))
      else if subtype = JStr ''hook_callback'' then
        (let callbackId = js_String (coalesce (get_prop requestBody ''callback_id'') (JStr [])) in
         case hookCallbacks q callbackId of
           None \<Rightarrow> (q, Inl (JErr (''Hook callback not found: '' @ callbackId)))
         | Some callback \<Rightarrow>
             (q, Inr (WaitHook (callback (get_prop requestBody ''input'')
                                  (coalesce (get_prop requestBody ''tool_use_id'') JNull)))))
      else if subtype = JStr ''mcp_message'' then
        (let serverName = js_String (coalesce (get_prop requestBody ''server_name'') (JStr []));
             message = get_prop requestBody ''message'' in
         if serverName = [] then (q, Inl (JErr ''The MCP control request has no server_name''))
         else if \<not> truthy message \<or> \<not> typeof_object message
         then (q, Inl (JErr ''The MCP control request has no valid message field''))
         else
           (case getOrCreateMcpServerBridge serverName q of
              Inl e \<Rightarrow> (q, Inl e)
            | Inr (q1, a) \<Rightarrow>
                (q1\<lparr>bridge_store := (bridge_store q1)[a := handleRequest_begin message (bridge_store q1 ! a)]\<rparr>,
                 Inr (WaitBridge a (n_calls (bridge_store q1 ! a))))))
      else (q, Inl (JErr (''Unsupported control request subtype: '' @ js_String subtype))))"

text \<open>The payload of a permission decision (lines 558-582).\<close>

definition permission_payload :: "jsval \<Rightarrow> PermissionResult \<Rightarrow> jsval + jsval" where
  "permission_payload input decision =
     (case decision of
        PermissionResultAllow updatedInput updatedPermissions \<Rightarrow>
          (let responsePayload = [(''behavior'', JStr ''allow''),
                                  (''updatedInput'', coalesce updatedInput input)]
           in case serializePermissionUpdates updatedPermissions of
                None \<Rightarrow> Inr (JObj responsePayload)
              | Some permissionUpdates \<Rightarrow>
                  Inr (JObj (set_field ''updatedPermissions'' (JArr permissionUpdates) responsePayload)))
      | PermissionResultDeny message interrupt \<Rightarrow>
          (let responsePayload = [(''behavior'', JStr ''deny''),
                                  (''message'', coalesce (js_optional JStr message) (JStr []))]
           in if js_optional JBool interrupt \<noteq> JUndefined
              then Inr (JObj (set_field ''interrupt'' (js_optional JBool interrupt) responsePayload))
              else Inr (JObj responsePayload))
      | PermissionResultOther v \<Rightarrow>
          (case prop_read v ''behavior'' of
             Inl e \<Rightarrow> Inl e
           | Inr b \<Rightarrow> Inl (JErr ''The canUseTool callback returned an unknown PermissionResult type'')))"

text \<open>The payload of a hook callback's output (line 594).\<close>

definition hook_payload :: "jsval \<Rightarrow> jsval + jsval" where
  "hook_payload hookOutput =
     (case Object_entries hookOutput of
        Inl e \<Rightarrow> Inl e
      | Inr entries \<Rightarrow> Inr (JObj (convertHookOutputForCli entries)))"

text \<open>
  The \<^verbatim>\<open>try\<close> block from its \<^verbatim>\<open>await\<close> on, in the engine as it is by then: \<open>None\<close> while the
  awaited promise has not ended, else what the block throws (\<open>Inl\<close>) or its
  \<^verbatim>\<open>responsePayload\<close>.
\<close>

definition awaited_payload :: "handler_wait \<Rightarrow> Query \<Rightarrow> (jsval + jsval) option" where
  "awaited_payload w q =
     (case w of
        WaitCanUseTool input r \<Rightarrow>
          (case r of
             None \<Rightarrow> None
           | Some (Rejected e) \<Rightarrow> Some (Inl e)
           | Some (Fulfilled decision) \<Rightarrow> Some (permission_payload input decision))
      | WaitHook r \<Rightarrow>
          (case r of
             None \<Rightarrow> None
           | Some (Rejected e) \<Rightarrow> Some (Inl e)
           | Some (Fulfilled hookOutput) \<Rightarrow> Some (hook_payload hookOutput))
      | WaitBridge a c \<Rightarrow>
          (if a < length (bridge_store q)
           then (case state_of (bridge_store q ! a) c of
                   Some (Settled (Fulfilled mcpResponse)) \<Rightarrow> Some (Inr (JObj [(''mcp_response'', mcpResponse)]))
                 | Some (Settled (Rejected e)) \<Rightarrow> Some (Inl e)
                 | _ \<Rightarrow> None)
           else None))"

text \<open>The two response lines (lines 615-622, 625-632).\<close>

definition success_line :: "jsval \<Rightarrow> jsval \<Rightarrow> jsval" where
  "success_line requestId responsePayload =
     JObj [(''type'', JStr ''control_response''),
           (''response'', JObj [(''subtype'', JStr ''success''),
                                (''request_id'', requestId),
                                (''response'', coalesce responsePayload (JObj []))])]"

definition failure_line :: "jsval \<Rightarrow> jsval \<Rightarrow> jsval" where
  "failure_line requestId message =
     JObj [(''type'', JStr ''control_response''),
           (''response'', JObj [(''subtype'', JStr ''error''),
                                (''request_id'', requestId),
                                (''error'', message)])]"

text \<open>The \<^verbatim>\<open>catch\<close> block (lines 624-634): nothing catches what it throws itself.\<close>

definition catch_block :: "jsval \<Rightarrow> jsval \<Rightarrow> Query \<Rightarrow> Query \<times> handler_end" where
  "catch_block requestId e q =
     (case prop_read e ''message'' of
        Inl te \<Rightarrow> (q, Failed te)
      | Inr m \<Rightarrow>
          (case transport_write (failure_line requestId m) (transport q) of
             Inl we \<Rightarrow> (q, Failed we)
           | Inr t \<Rightarrow> (q\<lparr>transport := t\<rparr>, Completed)))"

text \<open>The end of the \<^verbatim>\<open>try\<close> block (lines 615-623).\<close>

definition write_success :: "jsval \<Rightarrow> jsval \<Rightarrow> Query \<Rightarrow> Query \<times> handler_end" where
  "write_success requestId responsePayload q =
     (case transport_write (success_line requestId responsePayload) (transport q) of
        Inl we \<Rightarrow> catch_block requestId we q
      | Inr t \<Rightarrow> (q\<lparr>transport := t\<rparr>, Completed))"

text \<open>
  \<^verbatim>\<open>handleControlRequest\<close> up to its \<^verbatim>\<open>await\<close>: it ends at once (\<open>Inl\<close>), or waits.
  Reading \<^verbatim>\<open>requestBody.subtype\<close> comes before the \<^verbatim>\<open>try\<close>.
\<close>

definition handleControlRequest_begin ::
  "jsval \<Rightarrow> Query \<Rightarrow> Query \<times> (handler_end + handler_wait)" where
  "handleControlRequest_begin request q =
     (case prop_read (get_prop request ''request'') ''subtype'' of
        Inl te \<Rightarrow> (q, Inl (Failed te))
      | Inr subtype \<Rightarrow>
          (case dispatch (get_prop request ''request'') q of
             (q1, Inl e) \<Rightarrow>
               (case catch_block (get_prop request ''request_id'') e q1 of (q2, h) \<Rightarrow> (q2, Inl h))
           | (q1, Inr w) \<Rightarrow> (q1, Inr w)))"

text \<open>
  \<^verbatim>\<open>handleControlRequest\<close> from its \<^verbatim>\<open>await\<close> on, in the engine as it is by then; \<open>None\<close>
  while the awaited promise has not ended.
\<close>

definition handleControlRequest_end ::
  "jsval \<Rightarrow> handler_wait \<Rightarrow> Query \<Rightarrow> (Query \<times> handler_end) option" where
  "handleControlRequest_end request w q =
     (case awaited_payload w q of
        None \<Rightarrow> None
      | Some (Inl e) \<Rightarrow> Some (catch_block (get_prop request ''request_id'') e q)
      | Some (Inr responsePayload) \<Rightarrow>
          Some (write_success (get_prop request ''request_id'') responsePayload q))"

subsection \<open>The read loop (lines 475-504)\<close>

text \<open>
  The body of the loop for one message: the loop breaks, goes on (with the promises a
  control response settled, or the handler it started for a control request), or
  throws into its own \<^verbatim>\<open>catch\<close>.
\<close>

datatype loop_step =
    LoopBreak
  | LoopThrows jsval
  | LoopContinues "(nat \<times> jsval outcome) list" "(handler_end + handler_wait) option"

definition isControlResponseMessage :: "jsval \<Rightarrow> bool" where
  "isControlResponseMessage message =
     (typeof_object message \<and> message \<noteq> JNull \<and> get_prop message ''type'' = JStr ''control_response'')"

definition isControlRequestMessage :: "jsval \<Rightarrow> bool" where
  "isControlRequestMessage message =
     (typeof_object message \<and> message \<noteq> JNull \<and> get_prop message ''type'' = JStr ''control_request'')"

definition readLoop_body :: "jsval \<Rightarrow> Query \<Rightarrow> Query \<times> loop_step" where
  "readLoop_body message q =
     (if q_closed q then (q, LoopBreak)
      else if isControlResponseMessage message
      then (case handleControlResponse message q of
              Inl e \<Rightarrow> (q, LoopThrows e)
            | Inr (q1, settled) \<Rightarrow> (q1, LoopContinues settled None))
      else if isControlRequestMessage message
      then (case handleControlRequest_begin message q of
              (q1, h) \<Rightarrow> (q1, LoopContinues [] (Some h)))
      else (case prop_read message ''type'' of
              Inl e \<Rightarrow> (q, LoopThrows e)
            | Inr t \<Rightarrow>
                if t = JStr ''control_cancel_request'' then (q, LoopContinues [] None)
                else (case push message (messageQueue q) of
                        Inl e \<Rightarrow> (q, LoopThrows e)
                      | Inr (mq, out) \<Rightarrow> (q\<lparr>messageQueue := mq\<rparr>, LoopContinues [] None))))"

text \<open>
  The end of the loop (lines 499-503): an error thrown in the loop fails the queue of
  data messages, and the queue is closed in any case.
\<close>

definition readLoop_end :: "jsval option \<Rightarrow> Query \<Rightarrow> Query" where
  "readLoop_end thrown q =
     q\<lparr>messageQueue :=
         fst (close (case thrown of None \<Rightarrow> messageQueue q | Some e \<Rightarrow> fst (fail e (messageQueue q))))\<rparr>"

subsection \<open>Bridge traces of an engine\<close>




subsection \<open>Engine traces\<close>

text \<open>
  What happens to the registry of pending control requests over the life of an engine:
  calls of \<^verbatim>\<open>sendControlRequest\<close>, control responses read by the loop, and waits of
  \<^verbatim>\<open>sendControlRequest\<close> ending. A trace collects the promises the control responses
  settle, in order.
\<close>

datatype engine_event =
    SendControlRequest "(string \<times> jsval) list" string
  | ControlResponseRead jsval
  | WaitEnds string "jsval outcome"

fun engine_step :: "engine_event \<Rightarrow> Query \<Rightarrow> Query \<times> (nat \<times> jsval outcome) list" where
  "engine_step (SendControlRequest request hex) q = (fst (sendControlRequest_begin request hex q), [])"
| "engine_step (ControlResponseRead message) q =
     (case handleControlResponse message q of Inl e \<Rightarrow> (q, []) | Inr (q1, settled) \<Rightarrow> (q1, settled))"
| "engine_step (WaitEnds requestId r) q = (fst (sendControlRequest_end requestId r q), [])"

fun engine_run :: "engine_event list \<Rightarrow> Query \<Rightarrow> Query \<times> (nat \<times> jsval outcome) list" where
  "engine_run [] q = (q, [])"
| "engine_run (e # es) q =
     (case engine_step e q of
        (q1, settled) \<Rightarrow> (case engine_run es q1 of (q2, settled') \<Rightarrow> (q2, settled @ settled')))"

section \<open>Auxiliary definitions for the proofs\<close>

text \<open>
  The name under which \<^verbatim>\<open>convertHookOutputForCli\<close> stores a field, and the entries it
  stores, under those names.
\<close>

definition wire_name :: "string \<Rightarrow> string" where
  "wire_name k = (if k = ''async_'' then ''async'' else if k = ''continue_'' then ''continue'' else k)"

definition copied :: "(string \<times> jsval) list \<Rightarrow> (string \<times> jsval) list" where
  "copied out = map (\<lambda>e. (wire_name (fst e), snd e)) (filter (\<lambda>e. fst e \<noteq> ''__proto__'') out)"

text \<open>A field stored when its value is truthy: one step of \<^verbatim>\<open>serializePermissionUpdates\<close>.\<close>

definition opt_field :: "string \<Rightarrow> jsval \<Rightarrow> (string \<times> jsval) list \<Rightarrow> (string \<times> jsval) list" where
  "opt_field k v r = (if truthy v then set_field k v r else r)"

text \<open>Concrete inputs, for the witnesses.\<close>

definition example_update :: PermissionUpdate where
  "example_update =
     \<lparr>pu_type = addRules,
      pu_rules = Some [\<lparr>toolName = ''Bash'', ruleContent = ruleContent_absent\<rparr>],
      pu_behavior = Some allow, pu_mode = None, pu_directories = None,
      pu_destination = Some session\<rparr>"

definition example_options :: QueryOptions where
  "example_options =
     \<lparr>opt_transport = \<lparr>written = [], writable = True\<rparr>,
      opt_canUseTool = None, opt_hooks = None, opt_sdkMcpServers = None,
      opt_isStreamingMode = Some False\<rparr>"

text \<open>The payload of a control-response line.\<close>

definition response_payload :: "jsval \<Rightarrow> jsval" where
  "response_payload line = get_prop (get_prop line ''response'') ''response''"

definition allow_options :: QueryOptions where
  "allow_options =
     \<lparr>opt_transport = \<lparr>written = [], writable = True\<rparr>,
      opt_canUseTool = Some (\<lambda>toolName input context. Some (Fulfilled (PermissionResultAllow JUndefined None))),
      opt_hooks = None, opt_sdkMcpServers = None, opt_isStreamingMode = Some True\<rparr>"

definition tool_request :: jsval where
  "tool_request =
     JObj [(''type'', JStr ''control_request''),
           (''request_id'', JStr ''req_tool''),
           (''request'', JObj [(''subtype'', JStr ''can_use_tool''),
                               (''tool_name'', JStr ''Bash''),
                               (''input'', JObj [(''value'', JNum 1)]),
                               (''permission_suggestions'', JArr []),
                               (''blocked_path'', JStr ''/tmp/test'')])]"

text \<open>
  The invariant of the registry of pending control requests, with the promises \<open>S\<close>
  settled so far: a registered promise was created by an earlier call, is not settled,
  and is registered under one identifier only.
\<close>

definition pending_ok :: "Query \<Rightarrow> nat list \<Rightarrow> bool" where
  "pending_ok q S =
     ((\<forall>rid n. pendingControlRequests q rid = Some n \<longrightarrow> n \<le> requestCounter q \<and> n \<notin> set S)
      \<and> (\<forall>n\<in>set S. n \<le> requestCounter q)
      \<and> distinct S
      \<and> (\<forall>rid rid' n. pendingControlRequests q rid = Some n \<and> pendingControlRequests q rid' = Some n
            \<longrightarrow> rid = rid'))"

definition streaming_options :: QueryOptions where
  "streaming_options =
     \<lparr>opt_transport = \<lparr>written = [], writable = True\<rparr>,
      opt_canUseTool = None, opt_hooks = None, opt_sdkMcpServers = None,
      opt_isStreamingMode = None\<rparr>"

text \<open>A streaming engine whose transport rejects every write.\<close>

definition unwritable_options :: QueryOptions where
  "unwritable_options =
     \<lparr>opt_transport = \<lparr>written = [], writable = False\<rparr>,
      opt_canUseTool = None, opt_hooks = None, opt_sdkMcpServers = None,
      opt_isStreamingMode = None\<rparr>"

definition success_response :: "string \<Rightarrow> jsval" where
  "success_response rid =
     JObj [(''type'', JStr ''control_response''),
           (''response'', JObj [(''subtype'', JStr ''success''), (''request_id'', JStr rid),
                                (''response'', JObj [])])]"

definition pending_engine :: Query where
  "pending_engine = fst (interrupt_begin ''0a1b2c3d'' (new_Query streaming_options))"

definition reject_options :: QueryOptions where
  "reject_options =
     \<lparr>opt_transport = \<lparr>written = [], writable = True\<rparr>,
      opt_canUseTool = Some (\<lambda>toolName input context. Some (Rejected JUndefined)),
      opt_hooks = None, opt_sdkMcpServers = None, opt_isStreamingMode = Some True\<rparr>"

text \<open>
  The states of the calls of a bridge, and concrete inputs for its traces.
\<close>

definition call_states :: "McpServerBridge \<Rightarrow> nat list \<Rightarrow> call_state option list" where
  "call_states b cs = map (state_of b) cs"

text \<open>
  What is looked at after a sequence of events on a bridge: the states of some calls,
  the effects so far, and the waiters and buffered values of the outbound queue.
\<close>

definition observe :: "nat list \<Rightarrow> McpServerBridge \<Rightarrow> call_state option list \<times> effect list \<times> nat list \<times> jsval list" where
  "observe cs b =
     (call_states b cs, effects b,
      aq_waiters (outboundQueue (br_transport b)), aq_values (outboundQueue (br_transport b)))"

definition run_observe ::
  "bridge_event list \<Rightarrow> McpServerBridge \<Rightarrow> nat list
   \<Rightarrow> (call_state option list \<times> effect list \<times> nat list \<times> jsval list) option" where
  "run_observe evs b cs = map_option (observe cs) (run evs b)"

definition service :: McpInstance where
  "service = \<lparr>has_connect = True, has_close = False\<rparr>"

definition request_msg :: "int \<Rightarrow> jsval" where
  "request_msg i = JObj [(''jsonrpc'', JStr ''2.0''), (''id'', JNum i), (''method'', JStr ''echo'')]"

definition reply_msg :: "int \<Rightarrow> jsval" where
  "reply_msg i = JObj [(''jsonrpc'', JStr ''2.0''), (''id'', JNum i), (''result'', JObj [])]"

definition fulfilled :: "jsval outcome" where
  "fulfilled = Fulfilled JUndefined"

definition timeout_error :: jsval where
  "timeout_error = JErr ''Timed out waiting for the MCP response''"







section \<open>Properties of the async channel\<close>

lemma fail_closed: "aq_closed (fst (fail e q))"
  by (simp add: fail_def)

text \<open>
  C8, as stated, fails: on a channel on which \<^verbatim>\<open>fail\<close> has been called, \<^verbatim>\<open>push\<close> throws.
  Here on a fresh channel failed with an \<^verbatim>\<open>Error\<close>.
\<close>

theorem C8_push_after_fail_throws_counterexample:
  "push (JNum 1) (fst (fail (JErr ''boom'') (new_AsyncQueue :: jsval AsyncQueue)))
     = Inl (JErr ''Cannot push to a closed AsyncQueue'')"
  by (simp add: push_def fail_def new_AsyncQueue_def)

text \<open>
  C8, amended: on every channel on which \<^verbatim>\<open>fail(error)\<close> has been called, a subsequent
  \<^verbatim>\<open>push(value)\<close> throws the error "Cannot push to a closed AsyncQueue" (the closed check
  comes first); it enqueues nothing, wakes no waiter and leaves the channel as it was.
\<close>

theorem C8_push_after_fail:
  "push v (fst (fail e q)) = Inl (JErr ''Cannot push to a closed AsyncQueue'')
   \<and> push_state v (fst (fail e q)) = fst (fail e q)"
  by (simp add: push_def push_state_def fail_closed)

section \<open>Properties of the wire conversions\<close>

lemma convert_entry_update:
  "convert_entry e acc =
     (if fst e = ''__proto__'' then acc else AList.update (wire_name (fst e)) (snd e) acc)"
  by (simp add: convert_entry_def wire_name_def set_field_def assign_field_def)

lemma copied_Cons:
  "copied (e # out) = (if fst e = ''__proto__'' then [] else [(wire_name (fst e), snd e)]) @ copied out"
  by (simp add: copied_def)

lemma copied_append: "copied (xs @ ys) = copied xs @ copied ys"
  by (simp add: copied_def)

lemma map_of_fold_convert:
  "map_of (fold convert_entry out acc) k =
     (case map_of (rev (copied out)) k of Some v \<Rightarrow> Some v | None \<Rightarrow> map_of acc k)"
proof (induction out arbitrary: acc)
  case Nil
  then show ?case by (simp add: copied_def)
next
  case (Cons e out)
  have "map_of (fold convert_entry (e # out) acc) k
        = map_of (fold convert_entry out (convert_entry e acc)) k"
    by simp
  also have "\<dots> = (case map_of (rev (copied out)) k of
        Some v \<Rightarrow> Some v | None \<Rightarrow> map_of (convert_entry e acc) k)"
    by (rule Cons.IH)
  finally show ?case
    by (simp add: convert_entry_update [of e acc] copied_Cons update_conv' map_add_def
          split: option.splits)
qed

lemma map_of_convert:
  "map_of (convertHookOutputForCli out) k = map_of (rev (copied out)) k"
  by (simp add: convertHookOutputForCli_def map_of_fold_convert split: option.splits)

lemma copied_keys: "fst ` set (copied out) = wire_name ` (fst ` set out - {''__proto__''})"
proof -
  have "fst ` set (copied out) = wire_name ` fst ` {e \<in> set out. fst e \<noteq> ''__proto__''}"
    by (simp add: copied_def image_image)
  also have "fst ` {e \<in> set out. fst e \<noteq> ''__proto__''} = fst ` set out - {''__proto__''}"
    by force
  finally show ?thesis .
qed

text \<open>
  The field stored under \<open>t\<close>, when \<open>s\<close> is the only name of the output stored under \<open>t\<close>.
\<close>

lemma copied_unique:
  assumes "distinct (map fst out)" "s \<noteq> ''__proto__''" "wire_name s = t"
    and "\<forall>k\<in>fst ` set out. k \<noteq> ''__proto__'' \<and> wire_name k = t \<longrightarrow> k = s"
  shows "map_of (rev (copied out)) t = map_of out s"
  using assms(1,4)
proof (induction out)
  case Nil
  then show ?case by (simp add: copied_def)
next
  case (Cons e out)
  obtain ek ev where e: "e = (ek, ev)" by (cases e)
  from Cons have IH: "map_of (rev (copied out)) t = map_of out s" by simp
  show ?case
  proof (cases "ek = s")
    case True
    with Cons.prems(1) e have "map_of out s = None" by (simp add: map_of_eq_None_iff)
    with IH True e assms(2,3) show ?thesis by (simp add: copied_Cons map_add_def)
  next
    case False
    with Cons.prems(2) e have "ek = ''__proto__'' \<or> wire_name ek \<noteq> t" by auto
    with IH False e show ?thesis
      by (auto simp: copied_Cons map_add_def split: option.splits)
  qed
qed

text \<open>The field stored under \<open>t\<close> is the last one of the output that is stored under \<open>t\<close>.\<close>

lemma copied_last:
  assumes "ka \<noteq> ''__proto__''" "wire_name ka = t" "t \<notin> wire_name ` fst ` set ys"
  shows "map_of (rev (copied (xs @ (ka, va) # ys))) t = Some va"
proof -
  have "t \<notin> fst ` set (copied ys)" using assms(3) by (auto simp: copied_keys)
  then have "map_of (rev (copied ys)) t = None" by (simp add: map_of_eq_None_iff)
  with assms(1,2) show ?thesis
    by (simp add: copied_append copied_Cons map_add_def)
qed

lemma convert_no_suffixed:
  "map_of (convertHookOutputForCli out) ''async_'' = None"
  "map_of (convertHookOutputForCli out) ''continue_'' = None"
  "map_of (convertHookOutputForCli out) ''__proto__'' = None"
  by (auto simp: map_of_convert map_of_eq_None_iff copied_keys wire_name_def)

lemma convert_other_field:
  assumes "distinct (map fst out)"
    and "k \<notin> {''async_'', ''continue_'', ''async'', ''continue'', ''__proto__''}"
  shows "map_of (convertHookOutputForCli out) k = map_of out k"
proof -
  have "map_of (rev (copied out)) k = map_of out k"
    using assms by (intro copied_unique) (force simp: wire_name_def split: if_splits)+
  then show ?thesis by (simp add: map_of_convert)
qed

lemma convert_async_kept:
  assumes "distinct (map fst out)" "''async_'' \<notin> fst ` set out"
  shows "map_of (convertHookOutputForCli out) ''async'' = map_of out ''async''"
proof -
  have "map_of (rev (copied out)) ''async'' = map_of out ''async''"
    using assms by (intro copied_unique) (force simp: wire_name_def split: if_splits)+
  then show ?thesis by (simp add: map_of_convert)
qed

lemma convert_continue_kept:
  assumes "distinct (map fst out)" "''continue_'' \<notin> fst ` set out"
  shows "map_of (convertHookOutputForCli out) ''continue'' = map_of out ''continue''"
proof -
  have "map_of (rev (copied out)) ''continue'' = map_of out ''continue''"
    using assms by (intro copied_unique) (force simp: wire_name_def split: if_splits)+
  then show ?thesis by (simp add: map_of_convert)
qed

lemma convert_async:
  assumes "distinct (map fst out)" "''async'' \<notin> fst ` set out"
  shows "map_of (convertHookOutputForCli out) ''async'' = map_of out ''async_''"
proof -
  have "map_of (rev (copied out)) ''async'' = map_of out ''async_''"
    using assms by (intro copied_unique) (force simp: wire_name_def split: if_splits)+
  then show ?thesis by (simp add: map_of_convert)
qed

lemma convert_continue:
  assumes "distinct (map fst out)" "''continue'' \<notin> fst ` set out"
  shows "map_of (convertHookOutputForCli out) ''continue'' = map_of out ''continue_''"
proof -
  have "map_of (rev (copied out)) ''continue'' = map_of out ''continue_''"
    using assms by (intro copied_unique) (force simp: wire_name_def split: if_splits)+
  then show ?thesis by (simp add: map_of_convert)
qed

lemma convert_async_last:
  assumes "ka \<in> {''async_'', ''async''}" "''async_'' \<notin> fst ` set ys" "''async'' \<notin> fst ` set ys"
  shows "map_of (convertHookOutputForCli (xs @ (ka, va) # ys)) ''async'' = Some va"
proof -
  have "''async'' \<notin> wire_name ` fst ` set ys"
    using assms(2,3) by (auto simp: wire_name_def split: if_splits)
  with assms(1) have "map_of (rev (copied (xs @ (ka, va) # ys))) ''async'' = Some va"
    by (intro copied_last) (auto simp: wire_name_def)
  then show ?thesis by (simp add: map_of_convert)
qed

lemma convert_continue_last:
  assumes "kc \<in> {''continue_'', ''continue''}"
    "''continue_'' \<notin> fst ` set ys" "''continue'' \<notin> fst ` set ys"
  shows "map_of (convertHookOutputForCli (xs @ (kc, vc) # ys)) ''continue'' = Some vc"
proof -
  have "''continue'' \<notin> wire_name ` fst ` set ys"
    using assms(2,3) by (auto simp: wire_name_def split: if_splits)
  with assms(1) have "map_of (rev (copied (xs @ (kc, vc) # ys))) ''continue'' = Some vc"
    by (intro copied_last) (auto simp: wire_name_def)
  then show ?thesis by (simp add: map_of_convert)
qed

text \<open>
  C3, as stated, fails: a field whose name ends in an underscore, other than \<^verbatim>\<open>async_\<close>
  and \<^verbatim>\<open>continue_\<close>, keeps its name. Here \<^verbatim>\<open>{foo_: true}\<close> stays \<^verbatim>\<open>{foo_: true}\<close>: there is no
  field \<^verbatim>\<open>foo\<close> in the result.
\<close>

theorem C3_other_underscore_field_counterexample:
  "convertHookOutputForCli [(''foo_'', JBool True)] = [(''foo_'', JBool True)]
   \<and> map_of (convertHookOutputForCli [(''foo_'', JBool True)]) ''foo'' = None"
  by (simp add: convertHookOutputForCli_def convert_entry_def set_field_def assign_field_def)

text \<open>
  C3, amended. For every hook-callback output record (\<open>out\<close>, the entries of its own
  properties, their names distinct), the fields of the result are these, and no others:

  \<^item> there is no field \<^verbatim>\<open>async_\<close>, \<^verbatim>\<open>continue_\<close> or \<^verbatim>\<open>__proto__\<close> (an own property of that name
    is not copied);
  \<^item> every field with a name other than \<^verbatim>\<open>async_\<close>, \<^verbatim>\<open>continue_\<close>, \<^verbatim>\<open>async\<close>, \<^verbatim>\<open>continue\<close> and
    \<^verbatim>\<open>__proto__\<close>, ending in an underscore or not, is passed through unchanged, and the
    result has a field of such a name only when the output has;
  \<^item> a field \<^verbatim>\<open>async\<close> (\<^verbatim>\<open>continue\<close>) of an output without \<^verbatim>\<open>async_\<close> (\<^verbatim>\<open>continue_\<close>) is passed
    through unchanged too;
  \<^item> the field \<^verbatim>\<open>async_\<close> (\<^verbatim>\<open>continue_\<close>) of an output without \<^verbatim>\<open>async\<close> (\<^verbatim>\<open>continue\<close>) is renamed
    to \<^verbatim>\<open>async\<close> (\<^verbatim>\<open>continue\<close>);
  \<^item> when the output has both, the result's \<^verbatim>\<open>async\<close> (\<^verbatim>\<open>continue\<close>) is the one of the two that
    comes later in the output.

  In particular \<^verbatim>\<open>{async_: true, continue_: false, extra: "value"}\<close> becomes
  \<^verbatim>\<open>{async: true, continue: false, extra: "value"}\<close>.
\<close>

theorem C3_convertHookOutputForCli:
  assumes "distinct (map fst out)"
  shows "map_of (convertHookOutputForCli out) ''async_'' = None
    \<and> map_of (convertHookOutputForCli out) ''continue_'' = None
    \<and> map_of (convertHookOutputForCli out) ''__proto__'' = None
    \<and> (k \<notin> {''async_'', ''continue_'', ''async'', ''continue'', ''__proto__''} \<longrightarrow>
          map_of (convertHookOutputForCli out) k = map_of out k)
    \<and> (''async_'' \<notin> fst ` set out \<longrightarrow>
          map_of (convertHookOutputForCli out) ''async'' = map_of out ''async'')
    \<and> (''continue_'' \<notin> fst ` set out \<longrightarrow>
          map_of (convertHookOutputForCli out) ''continue'' = map_of out ''continue'')
    \<and> (''async'' \<notin> fst ` set out \<longrightarrow>
          map_of (convertHookOutputForCli out) ''async'' = map_of out ''async_'')
    \<and> (''continue'' \<notin> fst ` set out \<longrightarrow>
          map_of (convertHookOutputForCli out) ''continue'' = map_of out ''continue_'')
    \<and> (out = xs @ (ka, va) # ys \<and> ka \<in> {''async_'', ''async''}
         \<and> ''async_'' \<notin> fst ` set ys \<and> ''async'' \<notin> fst ` set ys \<longrightarrow>
          map_of (convertHookOutputForCli out) ''async'' = Some va)
    \<and> (out = xs' @ (kc, vc) # ys' \<and> kc \<in> {''continue_'', ''continue''}
         \<and> ''continue_'' \<notin> fst ` set ys' \<and> ''continue'' \<notin> fst ` set ys' \<longrightarrow>
          map_of (convertHookOutputForCli out) ''continue'' = Some vc)
    \<and> convertHookOutputForCli
          [(''async_'', JBool True), (''continue_'', JBool False), (''extra'', JStr ''value'')]
        = [(''async'', JBool True), (''continue'', JBool False), (''extra'', JStr ''value'')]"
proof -
  have ak: "''async_'' \<notin> fst ` set out \<Longrightarrow>
      map_of (convertHookOutputForCli out) ''async'' = map_of out ''async''"
    using convert_async_kept [OF assms] by simp
  have ck: "''continue_'' \<notin> fst ` set out \<Longrightarrow>
      map_of (convertHookOutputForCli out) ''continue'' = map_of out ''continue''"
    using convert_continue_kept [OF assms] by simp
  have a: "''async'' \<notin> fst ` set out \<Longrightarrow>
      map_of (convertHookOutputForCli out) ''async'' = map_of out ''async_''"
    using convert_async [OF assms] by simp
  have c: "''continue'' \<notin> fst ` set out \<Longrightarrow>
      map_of (convertHookOutputForCli out) ''continue'' = map_of out ''continue_''"
    using convert_continue [OF assms] by simp
  have al: "out = xs @ (ka, va) # ys \<and> ka \<in> {''async_'', ''async''}
         \<and> ''async_'' \<notin> fst ` set ys \<and> ''async'' \<notin> fst ` set ys \<Longrightarrow>
          map_of (convertHookOutputForCli out) ''async'' = Some va"
    using convert_async_last [of ka ys xs va] by blast
  have cl: "out = xs' @ (kc, vc) # ys' \<and> kc \<in> {''continue_'', ''continue''}
         \<and> ''continue_'' \<notin> fst ` set ys' \<and> ''continue'' \<notin> fst ` set ys' \<Longrightarrow>
          map_of (convertHookOutputForCli out) ''continue'' = Some vc"
    using convert_continue_last [of kc ys' xs' vc] by blast
  have ex: "convertHookOutputForCli
          [(''async_'', JBool True), (''continue_'', JBool False), (''extra'', JStr ''value'')]
        = [(''async'', JBool True), (''continue'', JBool False), (''extra'', JStr ''value'')]"
    by (simp add: convertHookOutputForCli_def convert_entry_def set_field_def assign_field_def)
  have o: "k \<notin> {''async_'', ''continue_'', ''async'', ''continue'', ''__proto__''} \<Longrightarrow>
          map_of (convertHookOutputForCli out) k = map_of out k"
    using convert_other_field [OF assms, of k] by simp
  show ?thesis
    using ak ck a c al cl ex o convert_no_suffixed [of out] by (intro conjI impI) blast+
qed

theorem C3_convertHookOutputForCli_witness:
  "map_of (convertHookOutputForCli
      [(''async_'', JBool True), (''foo_'', JNum 1), (''continue'', JBool False)]) ''async''
     = Some (JBool True)
   \<and> map_of (convertHookOutputForCli
      [(''async_'', JBool True), (''foo_'', JNum 1), (''continue'', JBool False)]) ''foo_''
     = Some (JNum 1)
   \<and> map_of (convertHookOutputForCli
      [(''async_'', JBool True), (''foo_'', JNum 1), (''continue'', JBool False)]) ''continue''
     = Some (JBool False)
   \<and> map_of (convertHookOutputForCli
      [(''async_'', JBool True), (''foo_'', JNum 1), (''continue'', JBool False)]) ''async_''
     = None
   \<and> map_of (convertHookOutputForCli [(''async'', JBool False), (''continue_'', JBool True)]) ''async''
     = Some (JBool False)
   \<and> map_of (convertHookOutputForCli [(''async'', JBool False), (''continue_'', JBool True)]) ''continue''
     = Some (JBool True)
   \<and> map_of (convertHookOutputForCli
      [(''async'', JBool False), (''continue_'', JBool True), (''async_'', JBool True),
       (''continue'', JNull), (''__proto__'', JObj [])]) ''async''
     = Some (JBool True)
   \<and> map_of (convertHookOutputForCli
      [(''async'', JBool False), (''continue_'', JBool True), (''async_'', JBool True),
       (''continue'', JNull), (''__proto__'', JObj [])]) ''continue''
     = Some JNull
   \<and> map_of (convertHookOutputForCli
      [(''async'', JBool False), (''continue_'', JBool True), (''async_'', JBool True),
       (''continue'', JNull), (''__proto__'', JObj [])]) ''__proto__''
     = None"
proof -
  let ?A = "[(''async_'', JBool True), (''foo_'', JNum 1), (''continue'', JBool False)]"
  let ?B = "[(''async'', JBool False), (''continue_'', JBool True)]"
  let ?C = "[(''async'', JBool False), (''continue_'', JBool True), (''async_'', JBool True),
             (''continue'', JNull), (''__proto__'', JObj [])]"
  have dA: "distinct (map fst ?A)" by simp
  have dB: "distinct (map fst ?B)" by simp
  have dC: "distinct (map fst ?C)" by simp
  note A = C3_convertHookOutputForCli [OF dA, where k = "''foo_''"]
  note B = C3_convertHookOutputForCli [OF dB]
  note C = C3_convertHookOutputForCli
    [OF dC, where xs = "[(''async'', JBool False), (''continue_'', JBool True)]"
       and ka = "''async_''" and va = "JBool True"
       and ys = "[(''continue'', JNull), (''__proto__'', JObj [])]"
       and xs' = "[(''async'', JBool False), (''continue_'', JBool True), (''async_'', JBool True)]"
       and kc = "''continue''" and vc = JNull and ys' = "[(''__proto__'', JObj [])]"]
  have a1: "map_of (convertHookOutputForCli ?A) ''async'' = Some (JBool True)"
    using A [THEN conjunct2, THEN conjunct2, THEN conjunct2, THEN conjunct2, THEN conjunct2,
             THEN conjunct2, THEN conjunct1] by simp
  have a2: "map_of (convertHookOutputForCli ?A) ''foo_'' = Some (JNum 1)"
    using A [THEN conjunct2, THEN conjunct2, THEN conjunct2, THEN conjunct1] by simp
  have a3: "map_of (convertHookOutputForCli ?A) ''continue'' = Some (JBool False)"
    using A [THEN conjunct2, THEN conjunct2, THEN conjunct2, THEN conjunct2, THEN conjunct2,
             THEN conjunct1] by simp
  have a4: "map_of (convertHookOutputForCli ?A) ''async_'' = None"
    using A [THEN conjunct1] .
  have b1: "map_of (convertHookOutputForCli ?B) ''async'' = Some (JBool False)"
    using B [THEN conjunct2, THEN conjunct2, THEN conjunct2, THEN conjunct2, THEN conjunct1]
    by simp
  have b2: "map_of (convertHookOutputForCli ?B) ''continue'' = Some (JBool True)"
    using B [THEN conjunct2, THEN conjunct2, THEN conjunct2, THEN conjunct2, THEN conjunct2,
             THEN conjunct2, THEN conjunct2, THEN conjunct1] by simp
  have c1: "map_of (convertHookOutputForCli ?C) ''async'' = Some (JBool True)"
    using C [THEN conjunct2, THEN conjunct2, THEN conjunct2, THEN conjunct2, THEN conjunct2,
             THEN conjunct2, THEN conjunct2, THEN conjunct2, THEN conjunct1] by simp
  have c2: "map_of (convertHookOutputForCli ?C) ''continue'' = Some JNull"
    using C [THEN conjunct2, THEN conjunct2, THEN conjunct2, THEN conjunct2, THEN conjunct2,
             THEN conjunct2, THEN conjunct2, THEN conjunct2, THEN conjunct2, THEN conjunct1]
    by simp
  have c3: "map_of (convertHookOutputForCli ?C) ''__proto__'' = None"
    using C [THEN conjunct2, THEN conjunct2, THEN conjunct1] .
  from a1 a2 a3 a4 b1 b2 c1 c2 c3 show ?thesis by (intro conjI)
qed

section \<open>Properties of the permission-update serialisation\<close>

lemma truthy_js_optional [simp]:
  "truthy (js_optional js_destination d) = (d \<noteq> None)"
  "truthy (js_optional js_behavior b) = (b \<noteq> None)"
  "truthy (js_optional js_mode m) = (m \<noteq> None)"
  "truthy (js_optional (\<lambda>rs. JArr (map serializeRule rs)) r) = (r \<noteq> None)"
  "truthy (js_optional (\<lambda>ds. JArr (map JStr ds)) ds) = (ds \<noteq> None)"
proof -
  show "truthy (js_optional js_destination d) = (d \<noteq> None)"
    by (cases d) (simp_all add: js_optional_def, case_tac a, simp_all)
  show "truthy (js_optional js_behavior b) = (b \<noteq> None)"
    by (cases b) (simp_all add: js_optional_def, case_tac a, simp_all)
  show "truthy (js_optional js_mode m) = (m \<noteq> None)"
    by (cases m) (simp_all add: js_optional_def, case_tac a, simp_all)
  show "truthy (js_optional (\<lambda>rs. JArr (map serializeRule rs)) r) = (r \<noteq> None)"
    by (cases r) (simp_all add: js_optional_def)
  show "truthy (js_optional (\<lambda>ds. JArr (map JStr ds)) ds) = (ds \<noteq> None)"
    by (cases ds) (simp_all add: js_optional_def)
qed

lemma serialize_chain:
  "serializePermissionUpdate u =
     opt_field ''directories'' (js_optional (\<lambda>ds. JArr (map JStr ds)) (pu_directories u))
      (opt_field ''mode'' (js_optional js_mode (pu_mode u))
        (opt_field ''behavior'' (js_optional js_behavior (pu_behavior u))
          (opt_field ''rules'' (js_optional (\<lambda>rs. JArr (map serializeRule rs)) (pu_rules u))
            (opt_field ''destination'' (js_optional js_destination (pu_destination u))
              [(''type'', js_type (pu_type u))]))))"
  unfolding serializePermissionUpdate_def opt_field_def Let_def ..

lemma map_of_opt_field:
  "map_of (opt_field k v r) k' = (if k' = k \<and> truthy v then Some v else map_of r k')"
  by (simp add: opt_field_def set_field_def update_conv')

lemma truthy_enums [simp]:
  "truthy (js_destination d)" "truthy (js_behavior b)" "truthy (js_mode m)"
proof -
  show "truthy (js_destination d)" by (cases d) simp_all
  show "truthy (js_behavior b)" by (cases b) simp_all
  show "truthy (js_mode m)" by (cases m) simp_all
qed

lemma serialize_fields:
  "map_of (serializePermissionUpdate u) ''type'' = Some (js_type (pu_type u))"
  "map_of (serializePermissionUpdate u) ''destination'' = map_option js_destination (pu_destination u)"
  "map_of (serializePermissionUpdate u) ''rules'' = map_option (\<lambda>rs. JArr (map serializeRule rs)) (pu_rules u)"
  "map_of (serializePermissionUpdate u) ''behavior'' = map_option js_behavior (pu_behavior u)"
  "map_of (serializePermissionUpdate u) ''mode'' = map_option js_mode (pu_mode u)"
  "map_of (serializePermissionUpdate u) ''directories'' = map_option (\<lambda>ds. JArr (map JStr ds)) (pu_directories u)"
  by (simp_all add: serialize_chain map_of_opt_field js_optional_def split: option.splits)

lemma truthy_not_null: "truthy v \<Longrightarrow> v \<noteq> JNull \<and> v \<noteq> JUndefined"
  by (cases v) simp_all

lemma js_type_not_null: "js_type t \<noteq> JNull \<and> js_type t \<noteq> JUndefined"
  by (cases t) simp_all

lemma serialize_never_null:
  "map_of (serializePermissionUpdate u) k = Some v \<Longrightarrow> v \<noteq> JNull \<and> v \<noteq> JUndefined"
  unfolding serialize_chain map_of_opt_field
  by (auto simp: truthy_not_null js_type_not_null split: if_splits)

lemma json_doc_rule: "json_doc (serializeRule r) = serializeRule r"
  by (simp add: serializeRule_def coalesce_def js_ruleContent_def split: ruleContent_field.splits)

lemma serializeRule_defined: "serializeRule r \<noteq> JUndefined"
  by (simp add: serializeRule_def)

lemma json_doc_rules: "json_doc (JArr (map serializeRule rs)) = JArr (map serializeRule rs)"
  by (simp add: json_doc_rule serializeRule_defined)

lemma json_doc_strs: "json_doc (JArr (map JStr ds)) = JArr (map JStr ds)"
  by simp

lemma json_doc_enums:
  "json_doc (js_type t) = js_type t" "json_doc (js_destination d) = js_destination d"
  "json_doc (js_behavior b) = js_behavior b" "json_doc (js_mode m) = js_mode m"
proof -
  show "json_doc (js_type t) = js_type t" by (cases t) simp_all
  show "json_doc (js_destination d) = js_destination d" by (cases d) simp_all
  show "json_doc (js_behavior b) = js_behavior b" by (cases b) simp_all
  show "json_doc (js_mode m) = js_mode m" by (cases m) simp_all
qed

lemma ruleContent_wire:
  "get_prop (serializeRule r) ''ruleContent'' =
     (case ruleContent r of ruleContent_string s \<Rightarrow> JStr s | _ \<Rightarrow> JNull)"
  by (simp add: serializeRule_def get_prop_def get_field_def coalesce_def js_ruleContent_def
           split: ruleContent_field.splits)

lemma allow_payload:
  "permission_payload input (PermissionResultAllow ui ups) =
     Inr (JObj ([(''behavior'', JStr ''allow''), (''updatedInput'', coalesce ui input)]
          @ (case ups of None \<Rightarrow> [] | Some us \<Rightarrow>
               if us = [] then [] else [(''updatedPermissions'', JArr (map (\<lambda>u. JObj (serializePermissionUpdate u)) us))])))"
  by (simp add: permission_payload_def serializePermissionUpdates_def set_field_def split: option.splits)

lemma json_doc_stable:
  "\<forall>e\<in>set fs. snd e \<noteq> JUndefined \<and> json_doc (snd e) = snd e \<Longrightarrow> json_doc (JObj fs) = JObj fs"
proof -
  assume a: "\<forall>e\<in>set fs. snd e \<noteq> JUndefined \<and> json_doc (snd e) = snd e"
  then have "filter (\<lambda>(k, v). v \<noteq> JUndefined) fs = fs"
    by (intro filter_True) auto
  moreover from a have "map (\<lambda>(k, v). (k, json_doc v)) fs = fs"
    by (intro map_idI) auto
  ultimately show ?thesis by simp
qed

lemma set_alist_update: "set (AList.update k v r) \<subseteq> insert (k, v) (set r)"
  by (induction r) auto

lemma set_opt_field: "set (opt_field k v r) \<subseteq> insert (k, v) (set r)"
  using set_alist_update [of k v r] by (auto simp: opt_field_def set_field_def)

lemma opt_field_stable:
  assumes "\<forall>e\<in>set r. snd e \<noteq> JUndefined \<and> json_doc (snd e) = snd e"
    and "truthy v \<Longrightarrow> json_doc v = v"
  shows "\<forall>e\<in>set (opt_field k v r). snd e \<noteq> JUndefined \<and> json_doc (snd e) = snd e"
proof (cases "truthy v")
  case True
  with assms(2) have "v \<noteq> JUndefined" "json_doc v = v" by (auto simp: truthy_not_null)
  with assms(1) set_opt_field [of k v r] show ?thesis by fastforce
next
  case False
  with assms(1) show ?thesis by (simp add: opt_field_def)
qed

lemma json_doc_update: "json_doc (JObj (serializePermissionUpdate u)) = JObj (serializePermissionUpdate u)"
  unfolding serialize_chain
  by (intro json_doc_stable opt_field_stable)
     (auto simp: json_doc_enums js_optional_def json_doc_rule serializeRule_defined js_type_not_null
           split: option.splits)

text \<open>
  C7: for an Allow decision, each optional field present on a permission update
  (\<^verbatim>\<open>destination\<close>, \<^verbatim>\<open>rules\<close>, \<^verbatim>\<open>behavior\<close>, \<^verbatim>\<open>mode\<close>, \<^verbatim>\<open>directories\<close>) appears in the serialised
  object, with each rule's \<^verbatim>\<open>ruleContent\<close> defaulted to \<^verbatim>\<open>null\<close> when it is absent (or
  \<^verbatim>\<open>null\<close>); each field absent on the update is absent from the object; no field of
  the object is \<^verbatim>\<open>null\<close> or \<^verbatim>\<open>undefined\<close>, so the JSON line carries the object as it is;
  and the payload of an Allow decision with a non-empty list of updates carries their
  serialisations, in order, under \<^verbatim>\<open>updatedPermissions\<close>.
\<close>

theorem C7_permission_updates:
  "(\<forall>d. pu_destination u = Some d \<longrightarrow>
        map_of (serializePermissionUpdate u) ''destination'' = Some (js_destination d))
   \<and> (pu_destination u = None \<longrightarrow> map_of (serializePermissionUpdate u) ''destination'' = None)
   \<and> (\<forall>rs. pu_rules u = Some rs \<longrightarrow>
        map_of (serializePermissionUpdate u) ''rules'' = Some (JArr (map serializeRule rs)))
   \<and> (pu_rules u = None \<longrightarrow> map_of (serializePermissionUpdate u) ''rules'' = None)
   \<and> (\<forall>b. pu_behavior u = Some b \<longrightarrow>
        map_of (serializePermissionUpdate u) ''behavior'' = Some (js_behavior b))
   \<and> (pu_behavior u = None \<longrightarrow> map_of (serializePermissionUpdate u) ''behavior'' = None)
   \<and> (\<forall>m. pu_mode u = Some m \<longrightarrow>
        map_of (serializePermissionUpdate u) ''mode'' = Some (js_mode m))
   \<and> (pu_mode u = None \<longrightarrow> map_of (serializePermissionUpdate u) ''mode'' = None)
   \<and> (\<forall>ds. pu_directories u = Some ds \<longrightarrow>
        map_of (serializePermissionUpdate u) ''directories'' = Some (JArr (map JStr ds)))
   \<and> (pu_directories u = None \<longrightarrow> map_of (serializePermissionUpdate u) ''directories'' = None)
   \<and> (\<forall>r. serializeRule r =
          JObj [(''toolName'', JStr (toolName r)),
                (''ruleContent'', case ruleContent r of ruleContent_string s \<Rightarrow> JStr s | _ \<Rightarrow> JNull)])
   \<and> (\<forall>k v. map_of (serializePermissionUpdate u) k = Some v \<longrightarrow> v \<noteq> JNull \<and> v \<noteq> JUndefined)
   \<and> json_doc (JObj (serializePermissionUpdate u)) = JObj (serializePermissionUpdate u)
   \<and> (us \<noteq> [] \<longrightarrow>
        permission_payload input (PermissionResultAllow updatedInput (Some us)) =
          Inr (JObj [(''behavior'', JStr ''allow''),
                     (''updatedInput'', coalesce updatedInput input),
                     (''updatedPermissions'', JArr (map (\<lambda>u. JObj (serializePermissionUpdate u)) us))]))"
proof -
  have rule: "\<And>r. serializeRule r =
          JObj [(''toolName'', JStr (toolName r)),
                (''ruleContent'', case ruleContent r of ruleContent_string s \<Rightarrow> JStr s | _ \<Rightarrow> JNull)]"
    by (simp add: serializeRule_def coalesce_def js_ruleContent_def split: ruleContent_field.splits)
  have never: "\<And>k v. map_of (serializePermissionUpdate u) k = Some v \<Longrightarrow> v \<noteq> JNull \<and> v \<noteq> JUndefined"
    by (rule serialize_never_null)
  have pay: "us \<noteq> [] \<Longrightarrow>
        permission_payload input (PermissionResultAllow updatedInput (Some us)) =
          Inr (JObj [(''behavior'', JStr ''allow''),
                     (''updatedInput'', coalesce updatedInput input),
                     (''updatedPermissions'', JArr (map (\<lambda>u. JObj (serializePermissionUpdate u)) us))])"
    by (simp add: allow_payload)
  show ?thesis
    using rule never pay json_doc_update [of u]
    by (simp add: serialize_fields)
qed

theorem C7_permission_updates_witness:
  "map_of (serializePermissionUpdate example_update) ''destination'' = Some (JStr ''session'')
   \<and> map_of (serializePermissionUpdate example_update) ''rules''
       = Some (JArr [JObj [(''toolName'', JStr ''Bash''), (''ruleContent'', JNull)]])
   \<and> map_of (serializePermissionUpdate example_update) ''behavior'' = Some (JStr ''allow'')
   \<and> map_of (serializePermissionUpdate example_update) ''mode'' = None
   \<and> map_of (serializePermissionUpdate example_update) ''directories'' = None
   \<and> map_of (serializePermissionUpdate example_update) ''type'' \<noteq> Some JNull
   \<and> permission_payload (JObj []) (PermissionResultAllow JUndefined (Some [example_update])) =
          Inr (JObj [(''behavior'', JStr ''allow''),
                     (''updatedInput'', JObj []),
                     (''updatedPermissions'', JArr [JObj (serializePermissionUpdate example_update)])])"
proof -
  note t = C7_permission_updates [of example_update "[example_update]" "JObj []" JUndefined]
  have d: "pu_destination example_update = Some session"
    and r: "pu_rules example_update = Some [\<lparr>toolName = ''Bash'', ruleContent = ruleContent_absent\<rparr>]"
    and b: "pu_behavior example_update = Some allow"
    and m: "pu_mode example_update = None"
    and ds: "pu_directories example_update = None"
    by (simp_all add: example_update_def)
  from t d have 1: "map_of (serializePermissionUpdate example_update) ''destination'' = Some (JStr ''session'')"
    by simp
  from t r have 2: "map_of (serializePermissionUpdate example_update) ''rules''
       = Some (JArr [JObj [(''toolName'', JStr ''Bash''), (''ruleContent'', JNull)]])"
    by simp
  from t b have 3: "map_of (serializePermissionUpdate example_update) ''behavior'' = Some (JStr ''allow'')"
    by simp
  from t m have 4: "map_of (serializePermissionUpdate example_update) ''mode'' = None"
    by simp
  from t ds have 5: "map_of (serializePermissionUpdate example_update) ''directories'' = None"
    by simp
  from t have 6: "map_of (serializePermissionUpdate example_update) ''type'' \<noteq> Some JNull"
    by blast
  from t have 7: "permission_payload (JObj []) (PermissionResultAllow JUndefined (Some [example_update])) =
          Inr (JObj [(''behavior'', JStr ''allow''),
                     (''updatedInput'', JObj []),
                     (''updatedPermissions'', JArr [JObj (serializePermissionUpdate example_update)])])"
    by (simp add: coalesce_def)
  from 1 2 3 4 5 6 7 show ?thesis by blast
qed

section \<open>Properties of the engine\<close>

text \<open>
  C9: an engine constructed with \<^verbatim>\<open>isStreamingMode: false\<close> is not in streaming mode, and
  on every engine that is not in streaming mode \<^verbatim>\<open>initialize()\<close> returns at once, without
  waiting, the empty result \<^verbatim>\<open>null\<close>; it leaves the transport as it was (nothing is
  written), and \<^verbatim>\<open>getInitializationResult()\<close> then returns that same \<^verbatim>\<open>null\<close>.
\<close>

theorem C9_initialize_non_streaming:
  "(opt_isStreamingMode options = Some False \<longrightarrow> \<not> isStreamingMode (new_Query options))
   \<and> (\<not> isStreamingMode q \<longrightarrow>
        initialize_begin rnd q = (q\<lparr>initializationResult := JNull\<rparr>, InitReturned JNull)
        \<and> transport (fst (initialize_begin rnd q)) = transport q
        \<and> getInitializationResult (fst (initialize_begin rnd q)) = JNull)"
  by (simp add: new_Query_def initialize_begin_def getInitializationResult_def)

theorem C9_initialize_non_streaming_witness:
  "initialize_begin (\<lambda>i. ''00000000'') (new_Query example_options)
     = ((new_Query example_options)\<lparr>initializationResult := JNull\<rparr>, InitReturned JNull)
   \<and> written (transport (fst (initialize_begin (\<lambda>i. ''00000000'') (new_Query example_options)))) = []
   \<and> getInitializationResult (fst (initialize_begin (\<lambda>i. ''00000000'') (new_Query example_options))) = JNull"
proof -
  have f: "opt_isStreamingMode example_options = Some False" by (simp add: example_options_def)
  from C9_initialize_non_streaming [of example_options "new_Query example_options" "\<lambda>i. ''00000000''"] f
  have "initialize_begin (\<lambda>i. ''00000000'') (new_Query example_options)
          = ((new_Query example_options)\<lparr>initializationResult := JNull\<rparr>, InitReturned JNull)"
    and "transport (fst (initialize_begin (\<lambda>i. ''00000000'') (new_Query example_options))) = transport (new_Query example_options)"
    and "getInitializationResult (fst (initialize_begin (\<lambda>i. ''00000000'') (new_Query example_options))) = JNull"
    by blast+
  then show ?thesis by (simp add: new_Query_def example_options_def)
qed

lemma json_doc_defined: "v \<noteq> JUndefined \<Longrightarrow> json_doc v \<noteq> JUndefined"
  by (cases v) simp_all

lemma coalesce_defined: "b \<noteq> JUndefined \<Longrightarrow> coalesce a b \<noteq> JUndefined"
  by (cases a) (simp_all add: coalesce_def)

lemma write_success_writable:
  "writable (transport q) \<Longrightarrow>
   write_success rid p q =
     (q\<lparr>transport := (transport q)\<lparr>written := written (transport q) @ [json_doc (success_line rid p)]\<rparr>\<rparr>,
      Completed)"
  by (simp add: write_success_def transport_write_def)

lemma dispatch_can_use_tool:
  assumes "get_field body ''subtype'' = JStr ''can_use_tool''" "canUseTool q = Some callback"
  shows "dispatch (JObj body) q =
     (q, Inr (WaitCanUseTool (coalesce (get_field body ''input'') (JObj []))
        (callback (js_String (coalesce (get_field body ''tool_name'') (JStr [])))
           (coalesce (get_field body ''input'') (JObj []))
           \<lparr>signal = JNull,
            suggestions = coalesce (get_field body ''permission_suggestions'') (JArr []),
            blockedPath = coalesce (get_field body ''blocked_path'') JNull\<rparr>)))"
  using assms by (simp add: dispatch_def get_prop_def Let_def)

text \<open>
  C10: for a \<^verbatim>\<open>can_use_tool\<close> control request whose permission callback returns an Allow
  decision without \<^verbatim>\<open>updatedInput\<close> (absent or \<^verbatim>\<open>null\<close>), the handler waits for the callback
  and then, the transport accepting the write, writes exactly one line: a success
  response whose payload has \<^verbatim>\<open>behavior: "allow"\<close> and whose \<^verbatim>\<open>updatedInput\<close> is the
  request's own \<^verbatim>\<open>input\<close> (the empty object when the request has none); \<^verbatim>\<open>updatedInput\<close>
  is never absent from it.
\<close>

theorem C10_allow_without_updatedInput:
  assumes "get_prop request ''request'' = JObj body"
    and "get_field body ''subtype'' = JStr ''can_use_tool''"
    and "canUseTool q = Some callback"
    and "callback (js_String (coalesce (get_field body ''tool_name'') (JStr [])))
           (coalesce (get_field body ''input'') (JObj []))
           \<lparr>signal = JNull,
            suggestions = coalesce (get_field body ''permission_suggestions'') (JArr []),
            blockedPath = coalesce (get_field body ''blocked_path'') JNull\<rparr>
         = Some (Fulfilled (PermissionResultAllow updatedInput updatedPermissions))"
    and "nullish updatedInput"
    and "writable (transport q')"
  shows "handleControlRequest_begin request q =
           (q, Inr (WaitCanUseTool (coalesce (get_field body ''input'') (JObj []))
                      (Some (Fulfilled (PermissionResultAllow updatedInput updatedPermissions)))))
    \<and> (\<exists>line. handleControlRequest_end request
            (WaitCanUseTool (coalesce (get_field body ''input'') (JObj []))
               (Some (Fulfilled (PermissionResultAllow updatedInput updatedPermissions)))) q'
          = Some (q'\<lparr>transport := (transport q')\<lparr>written := written (transport q') @ [line]\<rparr>\<rparr>, Completed)
        \<and> get_prop (get_prop line ''response'') ''subtype'' = JStr ''success''
        \<and> get_prop (response_payload line) ''behavior'' = JStr ''allow''
        \<and> get_prop (response_payload line) ''updatedInput''
             = json_doc (coalesce (get_field body ''input'') (JObj []))
        \<and> get_prop (response_payload line) ''updatedInput'' \<noteq> JUndefined)"
proof -
  let ?input = "coalesce (get_field body ''input'') (JObj [])"
  let ?w = "WaitCanUseTool ?input (Some (Fulfilled (PermissionResultAllow updatedInput updatedPermissions)))"
  let ?perms = "case serializePermissionUpdates updatedPermissions of
                  None \<Rightarrow> [] | Some us \<Rightarrow> [(''updatedPermissions'', JArr us)]"
  let ?payload = "JObj ([(''behavior'', JStr ''allow''), (''updatedInput'', ?input)] @ ?perms)"
  let ?line = "json_doc (success_line (get_prop request ''request_id'') ?payload)"
  have defined: "?input \<noteq> JUndefined" by (simp add: coalesce_defined)
  have start: "handleControlRequest_begin request q = (q, Inr ?w)"
    using assms(1-4) by (simp add: handleControlRequest_begin_def prop_read_def dispatch_can_use_tool)
  have payload: "awaited_payload ?w q' = Some (Inr ?payload)"
    using assms(5)
    by (simp add: awaited_payload_def permission_payload_def coalesce_def set_field_def
             split: option.splits)
  have finish: "handleControlRequest_end request ?w q'
      = Some (q'\<lparr>transport := (transport q')\<lparr>written := written (transport q') @ [?line]\<rparr>\<rparr>, Completed)"
    using assms(6) by (simp add: handleControlRequest_end_def payload write_success_writable)
  have sub: "get_prop (get_prop ?line ''response'') ''subtype'' = JStr ''success''"
    by (simp add: success_line_def get_prop_def get_field_def coalesce_def)
  have pl: "response_payload ?line = json_doc ?payload"
    by (simp add: response_payload_def success_line_def get_prop_def get_field_def coalesce_def)
  have beh: "get_prop (response_payload ?line) ''behavior'' = JStr ''allow''"
    unfolding pl by (simp add: get_prop_def get_field_def)
  have ui: "get_prop (response_payload ?line) ''updatedInput'' = json_doc ?input"
    unfolding pl using defined by (simp add: get_prop_def get_field_def)
  from start finish sub beh ui json_doc_defined [OF defined] show ?thesis by auto
qed

theorem C10_allow_without_updatedInput_witness:
  "handleControlRequest_begin tool_request (new_Query allow_options) =
     (new_Query allow_options,
      Inr (WaitCanUseTool (JObj [(''value'', JNum 1)])
             (Some (Fulfilled (PermissionResultAllow JUndefined None)))))
   \<and> (\<exists>line. handleControlRequest_end tool_request
          (WaitCanUseTool (JObj [(''value'', JNum 1)])
             (Some (Fulfilled (PermissionResultAllow JUndefined None)))) (new_Query allow_options)
        = Some ((new_Query allow_options)\<lparr>transport := \<lparr>written = [line], writable = True\<rparr>\<rparr>, Completed)
      \<and> get_prop (response_payload line) ''updatedInput'' = JObj [(''value'', JNum 1)])"
proof -
  let ?body = "[(''subtype'', JStr ''can_use_tool''), (''tool_name'', JStr ''Bash''),
                (''input'', JObj [(''value'', JNum 1)]), (''permission_suggestions'', JArr []),
                (''blocked_path'', JStr ''/tmp/test'')]"
  let ?cb = "\<lambda>(toolName :: string) (input :: jsval) (context :: ToolPermissionContext).
               Some (Fulfilled (PermissionResultAllow JUndefined None))"
  have 1: "get_prop tool_request ''request'' = JObj ?body"
    by (simp add: tool_request_def get_prop_def get_field_def)
  have 2: "get_field ?body ''subtype'' = JStr ''can_use_tool''"
    by (simp add: get_field_def)
  have 3: "canUseTool (new_Query allow_options) = Some ?cb"
    by (simp add: new_Query_def allow_options_def)
  have 4: "?cb (js_String (coalesce (get_field ?body ''tool_name'') (JStr [])))
           (coalesce (get_field ?body ''input'') (JObj []))
           \<lparr>signal = JNull,
            suggestions = coalesce (get_field ?body ''permission_suggestions'') (JArr []),
            blockedPath = coalesce (get_field ?body ''blocked_path'') JNull\<rparr>
         = Some (Fulfilled (PermissionResultAllow JUndefined None))"
    by simp
  have 5: "nullish JUndefined" by simp
  have 6: "writable (transport (new_Query allow_options))"
    by (simp add: new_Query_def allow_options_def)
  have i: "coalesce (get_field ?body ''input'') (JObj []) = JObj [(''value'', JNum 1)]"
    by (simp add: get_field_def coalesce_def)
  have t: "transport (new_Query allow_options) = \<lparr>written = [], writable = True\<rparr>"
    by (simp add: new_Query_def allow_options_def)
  from C10_allow_without_updatedInput [OF 1 2 3 4 5 6]
  show ?thesis unfolding i t by (simp del: ex_simps) blast
qed

section \<open>Properties of the pending control requests\<close>

lemma pending_ok_new: "pending_ok (new_Query options) []"
  by (simp add: pending_ok_def new_Query_def)

lemma pending_ok_send:
  assumes "pending_ok q S"
  shows "pending_ok (fst (sendControlRequest_begin request hex q)) S"
proof (cases "isStreamingMode q")
  case False
  with assms show ?thesis by (simp add: sendControlRequest_begin_def)
next
  case True
  let ?rid = "''req_'' @ show_nat (Suc (requestCounter q)) @ ''_'' @ hex"
  have pc: "pendingControlRequests (fst (sendControlRequest_begin request hex q))
          = (pendingControlRequests q)(?rid := Some (Suc (requestCounter q)))"
    and rc: "requestCounter (fst (sendControlRequest_begin request hex q)) = Suc (requestCounter q)"
    using True by (simp_all add: sendControlRequest_begin_def Let_def split: sum.splits)
  from assms show ?thesis
    unfolding pending_ok_def pc rc
    by (auto simp: le_Suc_eq split: if_splits) (metis Suc_n_not_le_n)+
qed

lemma pending_ok_delete:
  assumes "pending_ok q S"
  shows "pending_ok (q\<lparr>pendingControlRequests := (pendingControlRequests q)(rid := None)\<rparr>) S"
  using assms unfolding pending_ok_def by (auto split: if_splits)

lemma pending_ok_settle:
  assumes "pending_ok q S" "pendingControlRequests q rid = Some p"
  shows "pending_ok (q\<lparr>pendingControlRequests := (pendingControlRequests q)(rid := None)\<rparr>) (S @ [p])"
  using assms unfolding pending_ok_def by (auto split: if_splits)

lemma handleControlResponse_cases:
  "(\<exists>e. handleControlResponse message q = Inl e)
   \<or> handleControlResponse message q = Inr (q, [])
   \<or> (\<exists>rid p r. pendingControlRequests q rid = Some p \<and>
         handleControlResponse message q =
           Inr (q\<lparr>pendingControlRequests := (pendingControlRequests q)(rid := None)\<rparr>, [(p, r)]))"
  by (auto simp: handleControlResponse_def Let_def split: sum.splits jsval.splits option.splits)

lemma pending_ok_step:
  assumes "pending_ok q S" "engine_step e q = (q1, T)"
  shows "pending_ok q1 (S @ map fst T)"
proof (cases e)
  case (SendControlRequest request hex)
  with assms pending_ok_send [OF assms(1), of request hex] show ?thesis by auto
next
  case (ControlResponseRead message)
  from handleControlResponse_cases [of message q]
  consider (thrown) e' where "handleControlResponse message q = Inl e'"
    | (unknown) "handleControlResponse message q = Inr (q, [])"
    | (known) rid p r where "pendingControlRequests q rid = Some p"
        "handleControlResponse message q =
           Inr (q\<lparr>pendingControlRequests := (pendingControlRequests q)(rid := None)\<rparr>, [(p, r)])"
    by blast
  then show ?thesis
  proof cases
    case thrown
    with assms ControlResponseRead show ?thesis by auto
  next
    case unknown
    with assms ControlResponseRead show ?thesis by auto
  next
    case known
    with assms ControlResponseRead pending_ok_settle [OF assms(1) known(1)] show ?thesis by auto
  qed
next
  case (WaitEnds requestId r)
  with assms pending_ok_delete [OF assms(1), of requestId] show ?thesis
    by (auto simp: sendControlRequest_end_def)
qed

lemma pending_ok_run:
  "pending_ok q S \<Longrightarrow> engine_run evs q = (q', T) \<Longrightarrow> pending_ok q' (S @ map fst T)"
proof (induction evs arbitrary: q S q' T)
  case Nil
  then show ?case by simp
next
  case (Cons e evs)
  obtain q1 T1 where s: "engine_step e q = (q1, T1)" by (cases "engine_step e q")
  obtain q2 T2 where r: "engine_run evs q1 = (q2, T2)" by (cases "engine_run evs q1")
  from Cons.prems(2) s r have eq: "q' = q2" "T = T1 @ T2" by simp_all
  from pending_ok_step [OF Cons.prems(1) s] have "pending_ok q1 (S @ map fst T1)" .
  from Cons.IH [OF this r] eq show ?case by simp
qed

lemma settled_once: "distinct (map fst (snd (engine_run evs (new_Query options))))"
proof -
  obtain q' T where r: "engine_run evs (new_Query options) = (q', T)"
    by (cases "engine_run evs (new_Query options)")
  from pending_ok_run [OF pending_ok_new r] show ?thesis
    by (simp add: r pending_ok_def)
qed

lemma response_unknown:
  assumes "get_prop message ''response'' = JObj body"
    and "\<forall>s. get_field body ''request_id'' = JStr s \<longrightarrow> pendingControlRequests q s = None"
  shows "handleControlResponse message q = Inr (q, [])"
  using assms
  by (auto simp: handleControlResponse_def Let_def prop_read_def get_prop_def
           split: sum.splits jsval.splits option.splits)

lemma response_known:
  assumes "get_prop message ''response'' = JObj body"
    and "get_field body ''request_id'' = JStr rid"
    and "pendingControlRequests q rid = Some p"
  shows "\<exists>r. handleControlResponse message q =
           Inr (q\<lparr>pendingControlRequests := (pendingControlRequests q)(rid := None)\<rparr>, [(p, r)])"
  using assms
  by (auto simp: handleControlResponse_def Let_def prop_read_def get_prop_def)

lemma send_registers:
  assumes "sendControlRequest_begin request hex q = (q1, Inr rid)"
  shows "pendingControlRequests q1 rid = Some (Suc (requestCounter q))"
  using assms
  by (auto simp: sendControlRequest_begin_def Let_def split: if_splits sum.splits)

text \<open>
  What holds of the registry. A control response that names no pending request
  identifier (an unknown one, one already answered, or one that is not a string) is a
  no-op and does not throw. The first control response that names a pending request
  identifier removes the entry and settles the promise registered under it, once; any
  later control response naming the same identifier is then such a no-op. Over every
  sequence of calls of \<^verbatim>\<open>sendControlRequest\<close>, control responses and ends of waits, from a
  new engine, no promise is settled twice by control responses. \<^verbatim>\<open>sendControlRequest\<close>
  registers its promise under the identifier it waits for, and when its wait for the
  response ends (by failure or not) the \<^verbatim>\<open>finally\<close> block removes the entry.
\<close>

lemma response_settles_once:
  "(get_prop message ''response'' = JObj body
      \<and> (\<forall>s. get_field body ''request_id'' = JStr s \<longrightarrow> pendingControlRequests q s = None)
      \<longrightarrow> handleControlResponse message q = Inr (q, []))
   \<and> (get_prop message ''response'' = JObj body \<and> get_field body ''request_id'' = JStr rid
        \<and> pendingControlRequests q rid = Some p
      \<longrightarrow> (\<exists>r. handleControlResponse message q =
                 Inr (q\<lparr>pendingControlRequests := (pendingControlRequests q)(rid := None)\<rparr>, [(p, r)]))
          \<and> (\<forall>later body'. get_prop later ''response'' = JObj body'
                 \<and> get_field body' ''request_id'' = JStr rid
               \<longrightarrow> handleControlResponse later
                     (q\<lparr>pendingControlRequests := (pendingControlRequests q)(rid := None)\<rparr>)
                   = Inr (q\<lparr>pendingControlRequests := (pendingControlRequests q)(rid := None)\<rparr>, [])))
   \<and> distinct (map fst (snd (engine_run evs (new_Query options))))
   \<and> (\<forall>q1 rid'. sendControlRequest_begin request hex q = (q1, Inr rid')
         \<longrightarrow> pendingControlRequests q1 rid' = Some (Suc (requestCounter q)))
   \<and> pendingControlRequests (fst (sendControlRequest_end rid r q)) rid = None"
proof -
  have later: "\<And>later body'. get_prop later ''response'' = JObj body'
                 \<Longrightarrow> get_field body' ''request_id'' = JStr rid
               \<Longrightarrow> handleControlResponse later
                     (q\<lparr>pendingControlRequests := (pendingControlRequests q)(rid := None)\<rparr>)
                   = Inr (q\<lparr>pendingControlRequests := (pendingControlRequests q)(rid := None)\<rparr>, [])"
    by (rule response_unknown) auto
  have fin: "pendingControlRequests (fst (sendControlRequest_end rid r q)) rid = None"
    by (simp add: sendControlRequest_end_def)
  show ?thesis
    using response_unknown [of message body q] response_known [of message body rid q p] later
      settled_once [of evs options] send_registers [of request hex q] fin
    by blast
qed

lemma show_nat_1: "show_nat (Suc 0) = ''1''"
  by (simp add: show_nat.simps [of "Suc 0"] digit_char_def)

lemma response_settles_once_example:
  "pendingControlRequests pending_engine ''req_1_0a1b2c3d'' = Some 1
   \<and> (\<exists>r. handleControlResponse (success_response ''req_1_0a1b2c3d'') pending_engine =
          Inr (pending_engine\<lparr>pendingControlRequests :=
                 (pendingControlRequests pending_engine)(''req_1_0a1b2c3d'' := None)\<rparr>, [(1, r)]))
   \<and> handleControlResponse (success_response ''req_1_0a1b2c3d'')
         (pending_engine\<lparr>pendingControlRequests :=
            (pendingControlRequests pending_engine)(''req_1_0a1b2c3d'' := None)\<rparr>)
       = Inr (pending_engine\<lparr>pendingControlRequests :=
                (pendingControlRequests pending_engine)(''req_1_0a1b2c3d'' := None)\<rparr>, [])"
proof -
  let ?body = "[(''subtype'', JStr ''success''), (''request_id'', JStr ''req_1_0a1b2c3d''),
                (''response'', JObj [])]"
  have 1: "get_prop (success_response ''req_1_0a1b2c3d'') ''response'' = JObj ?body"
    by (simp add: success_response_def get_prop_def get_field_def)
  have 2: "get_field ?body ''request_id'' = JStr ''req_1_0a1b2c3d''"
    by (simp add: get_field_def)
  have 3: "pendingControlRequests pending_engine ''req_1_0a1b2c3d'' = Some 1"
    by (simp add: pending_engine_def interrupt_begin_def sendControlRequest_begin_def Let_def new_Query_def
          streaming_options_def transport_write_def show_nat_1)
  from response_settles_once [of "success_response ''req_1_0a1b2c3d''" ?body pending_engine
      "''req_1_0a1b2c3d''" 1] 1 2 3
  show ?thesis by blast
qed

text \<open>
  The path on which the entry is not removed, for every engine: \<^verbatim>\<open>await this.transport.write\<close>
  (line 659) comes after the registration and before the \<^verbatim>\<open>try\<close> block, so a write that
  fails ends \<^verbatim>\<open>sendControlRequest\<close> by that failure with the entry still registered.
\<close>

lemma write_failure_keeps_entry:
  assumes "isStreamingMode q" "\<not> writable (transport q)"
  shows "\<exists>q1 e. sendControlRequest_begin request hex q = (q1, Inl e)
           \<and> pendingControlRequests q1 (''req_'' @ show_nat (Suc (requestCounter q)) @ ''_'' @ hex)
                = Some (Suc (requestCounter q))"
  using assms by (simp add: sendControlRequest_begin_def Let_def transport_write_def)

text \<open>
  C1 at a failing input: \<^verbatim>\<open>interrupt()\<close> on a new streaming engine whose transport rejects
  the write. The wait of the caller ends by failure (the promise of \<^verbatim>\<open>interrupt()\<close> is
  rejected with the error of the write), and the entry registered under
  \<^verbatim>\<open>req_1_0a1b2c3d\<close> is still in the registry: nothing removes it and no response to it
  will come. So the entry is not removed when the wait of the caller terminates by this
  failure; the \<^verbatim>\<open>finally\<close> block of lines 668-670 removes it on every other one.
\<close>

theorem C1_write_failure_leaves_entry:
  "snd (interrupt_begin ''0a1b2c3d'' (new_Query unwritable_options)) = Inl (JErr ''write failed'')
   \<and> pendingControlRequests (fst (interrupt_begin ''0a1b2c3d'' (new_Query unwritable_options)))
       ''req_1_0a1b2c3d'' = Some 1"
  by (simp add: interrupt_begin_def sendControlRequest_begin_def Let_def new_Query_def
        unwritable_options_def transport_write_def show_nat_1)

section \<open>Properties of the control-request dispatch\<close>

text \<open>
  C2 at a failing input: the permission callback rejects without a reason
  (\<^verbatim>\<open>Promise.reject()\<close>, or \<^verbatim>\<open>throw undefined\<close>). The read loop starts the handler and goes on;
  the handler's \<^verbatim>\<open>catch\<close> block reads \<^verbatim>\<open>.message\<close> of the caught \<^verbatim>\<open>undefined\<close>, which throws a
  \<^verbatim>\<open>TypeError\<close> that nothing catches: the handler's promise is rejected and no
  control-response line is written for the request.
\<close>

theorem C2_rejection_without_reason:
  "readLoop_body tool_request (new_Query reject_options) =
     (new_Query reject_options,
      LoopContinues [] (Some (Inr (WaitCanUseTool (JObj [(''value'', JNum 1)])
                                     (Some (Rejected JUndefined))))))
   \<and> handleControlRequest_end tool_request
         (WaitCanUseTool (JObj [(''value'', JNum 1)]) (Some (Rejected JUndefined)))
         (new_Query reject_options)
       = Some (new_Query reject_options,
               Failed (JErr ''TypeError: Cannot read properties of null or undefined''))
   \<and> written (transport (new_Query reject_options)) = []"
  by (simp add: readLoop_body_def isControlResponseMessage_def isControlRequestMessage_def
        handleControlRequest_begin_def handleControlRequest_end_def dispatch_def
        awaited_payload_def catch_block_def prop_read_def get_prop_def get_field_def
        coalesce_def tool_request_def new_Query_def reject_options_def Let_def)

text \<open>
  Everywhere else the claim holds, the transport accepting the write: what the handler
  throws before it waits is reported by one error line, and after the wait one line
  reports the payload or the thrown value, unless that value is \<^verbatim>\<open>null\<close> or \<^verbatim>\<open>undefined\<close>.
\<close>

lemma catch_block_writable:
  assumes "writable (transport q)" "\<not> nullish e"
  shows "catch_block rid e q =
     (q\<lparr>transport := (transport q)\<lparr>written := written (transport q)
          @ [json_doc (failure_line rid (get_prop e ''message''))]\<rparr>\<rparr>, Completed)"
  using assms by (simp add: catch_block_def prop_read_def transport_write_def)

lemma catch_block_nullish:
  assumes "nullish e"
  shows "catch_block rid e q = (q, Failed (JErr ''TypeError: Cannot read properties of null or undefined''))"
  using assms by (simp add: catch_block_def prop_read_def)

lemma line_request_id:
  "get_prop (get_prop (json_doc (failure_line rid m)) ''response'') ''request_id'' = json_doc rid"
  "get_prop (get_prop (json_doc (success_line rid p)) ''response'') ''request_id'' = json_doc rid"
  "get_prop (get_prop (json_doc (failure_line rid m)) ''response'') ''subtype'' = JStr ''error''"
  "get_prop (get_prop (json_doc (success_line rid p)) ''response'') ''subtype'' = JStr ''success''"
  "get_prop (get_prop (json_doc (failure_line rid m)) ''response'') ''error'' = json_doc m"
  by (cases "rid = JUndefined"; cases "m = JUndefined";
      simp add: failure_line_def success_line_def get_prop_def get_field_def)+

lemma handler_end_reports_once:
  assumes "writable (transport q)" "awaited_payload w q = Some res"
    and "\<And>e. res = Inl e \<Longrightarrow> \<not> nullish e"
  shows "\<exists>line. handleControlRequest_end request w q
            = Some (q\<lparr>transport := (transport q)\<lparr>written := written (transport q) @ [line]\<rparr>\<rparr>,
                    Completed)
          \<and> get_prop (get_prop line ''response'') ''request_id'' = json_doc (get_prop request ''request_id'')
          \<and> get_prop (get_prop line ''response'') ''subtype''
               = (case res of Inl e \<Rightarrow> JStr ''error'' | Inr p \<Rightarrow> JStr ''success'')
          \<and> (\<forall>e. res = Inl e \<longrightarrow>
                get_prop (get_prop line ''response'') ''error'' = json_doc (get_prop e ''message''))"
proof (cases res)
  case (Inl e)
  let ?line = "json_doc (failure_line (get_prop request ''request_id'') (get_prop e ''message''))"
  from assms(3) Inl have "\<not> nullish e" by simp
  with assms(1,2) Inl have "handleControlRequest_end request w q
      = Some (q\<lparr>transport := (transport q)\<lparr>written := written (transport q) @ [?line]\<rparr>\<rparr>, Completed)"
    by (simp add: handleControlRequest_end_def catch_block_writable)
  with Inl show ?thesis
    by (intro exI [of _ ?line]) (simp add: line_request_id)
next
  case (Inr p)
  let ?line = "json_doc (success_line (get_prop request ''request_id'') p)"
  from assms(1,2) Inr have "handleControlRequest_end request w q
      = Some (q\<lparr>transport := (transport q)\<lparr>written := written (transport q) @ [?line]\<rparr>\<rparr>, Completed)"
    by (simp add: handleControlRequest_end_def write_success_writable)
  with Inr show ?thesis
    by (intro exI [of _ ?line]) (simp add: line_request_id)
qed

lemma getOrCreate_frame:
  "getOrCreateMcpServerBridge n q = Inr (q1, a) \<Longrightarrow> transport q1 = transport q"
  by (auto simp: getOrCreateMcpServerBridge_def split: option.splits)

lemma getOrCreate_error:
  "getOrCreateMcpServerBridge n q = Inl e \<Longrightarrow> \<exists>m. e = JErr m"
  by (auto simp: getOrCreateMcpServerBridge_def split: option.splits)

lemma dispatch_frame:
  assumes "dispatch body q = (q1, r)"
  shows "transport q1 = transport q \<and> (\<forall>e. r = Inl e \<longrightarrow> (\<exists>m. e = JErr m))"
proof (cases "getOrCreateMcpServerBridge
                (js_String (coalesce (get_prop body ''server_name'') (JStr []))) q")
  case (Inl e)
  with assms getOrCreate_error [OF Inl] show ?thesis
    by (auto simp: dispatch_def Let_def split: if_splits option.splits)
next
  case (Inr p)
  obtain q2 a where p: "p = (q2, a)" by (cases p)
  with assms Inr getOrCreate_frame [of _ q q2 a] show ?thesis
    by (auto simp: dispatch_def Let_def split: if_splits option.splits)
qed

lemma handler_begin_reports_once:
  assumes "writable (transport q)" "\<not> nullish (get_prop request ''request'')"
  shows "(\<exists>q1 w. handleControlRequest_begin request q = (q1, Inr w) \<and> transport q1 = transport q)
       \<or> (\<exists>q1 line. handleControlRequest_begin request q = (q1, Inl Completed)
             \<and> transport q1 = (transport q)\<lparr>written := written (transport q) @ [line]\<rparr>
             \<and> get_prop (get_prop line ''response'') ''request_id'' = json_doc (get_prop request ''request_id'')
             \<and> get_prop (get_prop line ''response'') ''subtype'' = JStr ''error'')"
proof -
  obtain q1 r where d: "dispatch (get_prop request ''request'') q = (q1, r)"
    by (cases "dispatch (get_prop request ''request'') q")
  from dispatch_frame [OF d] have t: "transport q1 = transport q"
    and err: "\<And>e. r = Inl e \<Longrightarrow> \<exists>m. e = JErr m" by auto
  show ?thesis
  proof (cases r)
    case (Inl e)
    from err [OF Inl] obtain m where e: "e = JErr m" by blast
    from assms(1) t have w: "writable (transport q1)" by simp
    let ?line = "json_doc (failure_line (get_prop request ''request_id'') (get_prop e ''message''))"
    let ?q2 = "q1\<lparr>transport := (transport q1)\<lparr>written := written (transport q1) @ [?line]\<rparr>\<rparr>"
    from catch_block_writable [OF w, of e "get_prop request ''request_id''"] e
    have "catch_block (get_prop request ''request_id'') e q1 = (?q2, Completed)"
      by simp
    with assms(2) d Inl have h: "handleControlRequest_begin request q = (?q2, Inl Completed)"
      by (simp add: handleControlRequest_begin_def prop_read_def)
    have tr: "transport ?q2 = (transport q)\<lparr>written := written (transport q) @ [?line]\<rparr>"
      using t by simp
    have "\<exists>q1 line. handleControlRequest_begin request q = (q1, Inl Completed)
             \<and> transport q1 = (transport q)\<lparr>written := written (transport q) @ [line]\<rparr>
             \<and> get_prop (get_prop line ''response'') ''request_id'' = json_doc (get_prop request ''request_id'')
             \<and> get_prop (get_prop line ''response'') ''subtype'' = JStr ''error''"
      using h tr line_request_id(1,3) by blast
    then show ?thesis by blast
  next
    case (Inr w)
    with assms(2) d t show ?thesis
      by (simp add: handleControlRequest_begin_def prop_read_def)
  qed
qed

section \<open>Properties of the server bridge\<close>

lemmas bridge_defs =
  new_McpServerBridge_def new_InMemoryMcpTransport_def new_AsyncQueue_def
  handleRequest_begin_def resume_def after_queue_def ensureConnected_begin_def
  after_ensureConnected_def after_deliver_def deliver_begin_def deliver_end_def
  set_state_def state_of_def queue_settled_def settle_waiting_def pull_def iter_next_def
  reader_step_def drop_reader_def message_id_def send_def push_def close_transport_def close_def
  prop_read_def get_prop_def get_field_def coalesce_def notification_reply_def as_Error_def
  new_Error_def call_states_def service_def request_msg_def reply_msg_def fulfilled_def
  timeout_error_def show_int_def

lemma show_nat_digits [simp]:
  "show_nat (Suc 0) = ''1''" "show_nat 2 = ''2''" "show_nat 3 = ''3''"
  by (simp_all add: show_nat.simps [of "Suc 0"] show_nat.simps [of 2] show_nat.simps [of 3]
        digit_char_def)

lemma set_state_frame [simp]:
  "connected (set_state c st b) = connected b"
  "effects (set_state c st b) = effects b"
  by (simp_all add: set_state_def split: option.splits)

lemma settle_waiting_frame [simp]:
  "connected (settle_waiting c r b) = connected b"
  "effects (settle_waiting c r b) = effects b"
  by (simp_all add: settle_waiting_def)

lemma drop_reader_frame [simp]:
  "connected (drop_reader c b) = connected b"
  "effects (drop_reader c b) = effects b"
  by (simp_all add: drop_reader_def)

lemma pull_frame [simp]:
  "connected (pull c x b) = connected b"
  "effects (pull c x b) = effects b"
  by (simp_all add: pull_def split: prod.splits)

lemma wake_frame [simp]:
  "connected (wake s b) = connected b"
  "effects (wake s b) = effects b"
  by (cases s; simp split: option.splits)+

lemma fold_wake_frame [simp]:
  "connected (fold wake out b) = connected b"
  "effects (fold wake out b) = effects b"
  by (induction out arbitrary: b) simp_all

lemma handleRequest_begin_frame [simp]:
  "connected (handleRequest_begin m b) = connected b"
  "effects (handleRequest_begin m b) = effects b"
  by (simp_all add: handleRequest_begin_def)

lemma connect_calls_append [simp]:
  "length (filter is_connect (es @ [OnMessageInvoked c m])) = length (filter is_connect es)"
  "length (filter is_connect (es @ [OnErrorInvoked c e])) = length (filter is_connect es)"
  "length (filter is_connect (es @ [TimerArmed c n])) = length (filter is_connect es)"
  "length (filter is_connect (es @ [OnCloseInvoked])) = length (filter is_connect es)"
  "length (filter is_connect (es @ [InstanceCloseInvoked])) = length (filter is_connect es)"
  by simp_all






lemma getOrCreate_new:
  assumes "getOrCreateMcpServerBridge name q = Inr (q1, a)" "map_of (sdkMcpBridges q) name = None"
  shows "\<exists>i. sdkMcpServers q name = Some i \<and> a = length (bridge_store q)
           \<and> bridge_store q1 = bridge_store q @ [new_McpServerBridge i]"
  using assms by (auto simp: getOrCreateMcpServerBridge_def split: option.splits)











text \<open>
  C4 at two failing inputs. First: call 0 is waiting for its reply when calls 1 and 2
  of \<^verbatim>\<open>handleRequest\<close> start; both read the same \<^verbatim>\<open>this.queue\<close> (the promise that follows
  call 0) and suspend on it. When call 0 is settled both continuations run, one after
  the other: call 1 starts \<^verbatim>\<open>processRequest\<close> and only then replaces \<^verbatim>\<open>this.queue\<close>, call 2
  does not look at \<^verbatim>\<open>this.queue\<close> again and starts \<^verbatim>\<open>processRequest\<close> as well. \<^verbatim>\<open>onmessage\<close> is
  called for call 2 while \<^verbatim>\<open>deliver\<close> of call 1 is still waiting for its own \<^verbatim>\<open>onmessage\<close>,
  and while call 1 is not settled. Second: two calls started one after the other on a
  new bridge both pass \<^verbatim>\<open>await this.queue\<close> on the initial promise; \<^verbatim>\<open>connect\<close> is called
  twice and the two \<^verbatim>\<open>deliver\<close> calls overlap.
\<close>

theorem C4_two_calls_pass_the_queue:
  "run_observe
     [HandleRequest (request_msg 1), Resume 0, AssignOnMessage, ConnectSettles 0 fulfilled,
      Resume 0, OnMessageSettles 0 fulfilled, Resume 0,
      HandleRequest (request_msg 2), HandleRequest (request_msg 3),
      ServiceSends (reply_msg 1), ResumeReader 0,
      Resume 1, Resume 2, Resume 1, Resume 2]
     (new_McpServerBridge service) [0, 1, 2]
   = Some ([Some (Settled (Fulfilled (reply_msg 1))), Some AwaitOnMessage, Some AwaitOnMessage],
           [ConnectInvoked 0, OnMessageInvoked 0 (request_msg 1), TimerArmed 0 60000,
            OnMessageInvoked 1 (request_msg 2), OnMessageInvoked 2 (request_msg 3)],
           [], [])
   \<and> run_observe
     [HandleRequest (request_msg 1), HandleRequest (request_msg 2), Resume 0, Resume 1,
      AssignOnMessage, ConnectSettles 0 fulfilled, ConnectSettles 1 fulfilled,
      Resume 0, Resume 1]
     (new_McpServerBridge service) [0, 1]
   = Some ([Some AwaitOnMessage, Some AwaitOnMessage],
           [ConnectInvoked 0, ConnectInvoked 1,
            OnMessageInvoked 0 (request_msg 1), OnMessageInvoked 1 (request_msg 2)],
           [], [])"
  by (simp add: run_observe_def observe_def bridge_defs numeral_2_eq_2)

text \<open>
  C6 at a failing input. The reply to request 1 never arrives and its timer (60000 ms)
  fires: call 0 fails with the timeout error, the queue takes the failure, and call 1
  (request 2) starts. But the \<^verbatim>\<open>waitForResponse\<close> loop of call 0 is still the first
  waiter of the outbound queue: the reply to request 2 is handed to it, it drops the
  reply as unrelated and waits again, behind the loop of call 1. The loop of call 1
  never sees its reply, and call 1 fails with the timeout error as well.
\<close>

theorem C6_reply_after_timeout_is_lost:
  "run_observe
     [HandleRequest (request_msg 1), Resume 0, AssignOnMessage, ConnectSettles 0 fulfilled,
      Resume 0, OnMessageSettles 0 fulfilled, Resume 0, TimerFires 0,
      HandleRequest (request_msg 2), Resume 1, Resume 1, OnMessageSettles 1 fulfilled, Resume 1,
      ServiceSends (reply_msg 2), ResumeReader 0, TimerFires 1]
     (new_McpServerBridge service) [0, 1]
   = Some ([Some (Settled (Rejected timeout_error)), Some (Settled (Rejected timeout_error))],
           [ConnectInvoked 0, OnMessageInvoked 0 (request_msg 1), TimerArmed 0 60000,
            OnMessageInvoked 1 (request_msg 2), TimerArmed 1 60000],
           [1, 0], [])"
  by (simp add: run_observe_def observe_def bridge_defs)





end
